theory Spec2Isabelle
  imports Complex_Main
begin

section \<open>The data of the optimizer (mung/torch\_ext/optim.py)\<close>

text \<open>
  Tensors hold real numbers: a tensor is its shape together with the row-major list of its
  entries, and every torch operation the optimizer calls is read as the elementwise
  operation on these lists. Rounding of machine floats is not part of this development.

  A gradient is either dense (one entry per coordinate) or sparse (a list of coordinate
  and entry pairs in which a coordinate may occur more than once until the gradient is
  coalesced). A parameter \<open>p\<close> of the source is an object with \<open>p.data\<close> and
  \<open>p.grad\<close>; the optimizer refers to it through a handle, and \<open>self.state[p]\<close> is a
  map from handles to the four state entries that \<open>reset\<close> creates.
\<close>

type_synonym pid = nat

datatype gradient = Dense "real list" | Sparse "(nat \<times> real) list"

record param =
  psize :: "nat list"
  data :: "real list"
  grad :: "gradient option"

record pstate =
  step_st :: nat
  sum_st :: "real list"
  avg_st :: "real list"
  zeros_st :: "real list"

record group =
  params :: "pid list"
  lr :: real
  lr_decay :: real
  weight_decay :: real
  l1_C :: real

record world =
  param_groups :: "group list"
  state :: "pid \<Rightarrow> pstate option"
  no_bias_l1 :: bool
  no_non_singleton_l1 :: bool
  tensors :: "pid \<Rightarrow> param"

text \<open>
  The exceptions a call can end with: the \<open>RuntimeError\<close> of line 79
  (\<open>SparseWeightDecay\<close>), the \<open>KeyError\<close> of \<open>state['step'] += 1\<close> on a parameter
  that has no state entries, Python's \<open>ZeroDivisionError\<close> of line 82, the error of
  \<open>p.data.size(0)\<close> on a tensor without dimensions, and the \<open>TypeError\<close> of torch's
  \<open>addcmul_\<close> on a sparse operand (line 87). The base class of the optimizer raises
  \<open>ValueError\<close> for an empty list of parameters. \<open>train_from_config\<close> raises
  \<open>KeyError\<close> for a missing key, \<open>ValueError\<close> from a conversion and
  \<open>IndexError\<close> from \<open>evaluations[0]\<close>.
\<close>

datatype error =
  SparseWeightDecay | KeyError | ZeroDivisionError | DimensionError | TypeError | ValueError
  | IndexError

definition is_sparse :: "gradient \<Rightarrow> bool" where
  "is_sparse gr = (case gr of Dense _ \<Rightarrow> False | Sparse _ \<Rightarrow> True)"

definition eps :: real where
  "eps = 1 / 10 ^ 10"

section \<open>Path selection (line 83)\<close>

text \<open>\<open>p.data.size(0)\<close>: the first dimension, an error on a tensor of rank 0.\<close>

fun size0 :: "nat list \<Rightarrow> error + nat" where
  "size0 [] = Inl DimensionError"
| "size0 (d # ds) = Inr d"

text \<open>
  The condition of line 83, with Python's evaluation order: \<open>and\<close> binds tighter than
  \<open>or\<close>, both operators stop at the first operand that decides them, and
  \<open>size(0)\<close> is only called where the evaluation reaches it.
  \<^verbatim>\<open>group['l1_C'] != 0 and ((not self._no_bias_l1)
      or (len(p.data.size()) > 1 or p.data.size(0) > 1)
         and ((not self._no_non_singleton_l1) or p.data.size(0) == 1))\<close>
\<close>

definition l1_cond :: "bool \<Rightarrow> bool \<Rightarrow> real \<Rightarrow> nat list \<Rightarrow> error + bool" where
  "l1_cond nb nns c sz =
     (if c \<noteq> 0 then
        (if \<not> nb then Inr True
         else
           (case (if length sz > 1 then Inr True
                  else (case size0 sz of Inl e \<Rightarrow> Inl e | Inr d \<Rightarrow> Inr (d > 1))) of
              Inl e \<Rightarrow> Inl e
            | Inr False \<Rightarrow> Inr False
            | Inr True \<Rightarrow>
                (if \<not> nns then Inr True
                 else (case size0 sz of Inl e \<Rightarrow> Inl e | Inr d \<Rightarrow> Inr (d = 1)))))
      else Inr False)"

text \<open>
  The eligibility rule with the grouping the specification gives it: the two shape
  conditions joined by a conjunction. \<open>rank\<close> is the number of dimensions and
  \<open>d0\<close> the size of the first one.
\<close>

definition spec_l1_eligible :: "bool \<Rightarrow> bool \<Rightarrow> nat \<Rightarrow> nat \<Rightarrow> bool" where
  "spec_l1_eligible nb nns rank d0 =
     ((\<not> nb \<or> (rank > 1 \<or> d0 > 1)) \<and> (\<not> nns \<or> d0 = 1))"

section \<open>The torch operations on sparse tensors\<close>

text \<open>
  \<open>dense.add_(c, sparse)\<close>: every entry of the sparse tensor, times \<open>c\<close>, is added at
  its coordinate. An empty sparse tensor (the \<open>constructor()\<close> branch of
  \<open>make_sparse\<close>) adds nothing.
\<close>

fun sparse_add :: "real list \<Rightarrow> real \<Rightarrow> (nat \<times> real) list \<Rightarrow> real list" where
  "sparse_add xs c [] = xs"
| "sparse_add xs c ((i, v) # es) = sparse_add (xs[i := xs ! i + c * v]) c es"

text \<open>
  \<open>grad.coalesce()\<close>: one entry per coordinate that occurs, in increasing order of the
  coordinates, holding the sum of the entries given for it.
\<close>

definition coalesce :: "(nat \<times> real) list \<Rightarrow> (nat \<times> real) list" where
  "coalesce es =
     map (\<lambda>i. (i, sum_list (map snd (filter (\<lambda>e. fst e = i) es))))
       (sort (remdups (map fst es)))"

text \<open>The sum of the entries a sparse tensor holds for the coordinate \<open>i\<close>.\<close>

definition total :: "(nat \<times> real) list \<Rightarrow> nat \<Rightarrow> real" where
  "total es i = sum_list (map snd (filter (\<lambda>e. fst e = i) es))"

text \<open>The dense tensor with \<open>n\<close> coordinates that a gradient denotes.\<close>

definition to_dense :: "nat \<Rightarrow> gradient \<Rightarrow> real list" where
  "to_dense n gr = (case gr of Dense g \<Rightarrow> g | Sparse es \<Rightarrow> sparse_add (replicate n 0) 1 es)"

section \<open>The three updates of \<open>step\<close>\<close>

text \<open>
  The tensors of one parameter (its entries, its gradient and its state tensors) are
  lists of one length in every world the constructor and \<open>step\<close> produce; torch
  raises on operands of different shapes, which is not part of the source. The
  hyperparameters are real numbers, and \<open>/\<close> on them is Python's float division.

  Lines 86 to 91. \<open>add_(1, grad)\<close> and \<open>addcmul_(1, grad, grad)\<close> accumulate into the
  state, and the assignment to \<open>p.data\<close> replaces the parameter's entries. The
  argument \<open>g\<close> is a dense gradient: on a sparse one \<open>add_\<close> of line 86 still adds
  the entries to \<open>avg\<close>, and \<open>addcmul_\<close> of line 87 raises.
\<close>

definition l1_update :: "real \<Rightarrow> real \<Rightarrow> real list \<Rightarrow> param \<Rightarrow> pstate \<Rightarrow> param \<times> pstate" where
  "l1_update clr c g p st =
     (let avg = map2 (\<lambda>a x. a + 1 * x) (avg_st st) g;
          sm = map2 (\<lambda>s x. s + 1 * (x * x)) (sum_st st) g;
          g_bar = map (\<lambda>a. a / real (step_st st)) avg;
          adapt = map (\<lambda>s. sqrt s + eps) sm;
          sparsity = map2 max (map (\<lambda>x. \<bar>x\<bar> - c) g_bar) (zeros_st st)
      in (p\<lparr>data :=
              map2 (*) (map2 (*) (map (\<lambda>x. sgn (- x)) g_bar)
                                 (map (\<lambda>a. clr * real (step_st st) / a) adapt))
                       sparsity\<rparr>,
          st\<lparr>sum_st := sm, avg_st := avg\<rparr>))"

text \<open>Lines 93 to 106: only the coordinates of the coalesced gradient are written.\<close>

definition sparse_update :: "real \<Rightarrow> (nat \<times> real) list \<Rightarrow> param \<Rightarrow> pstate \<Rightarrow> param \<times> pstate" where
  "sparse_update clr es0 p st =
     (let es = coalesce es0;
          sm = sparse_add (sum_st st) 1 (map (\<lambda>(i, v). (i, v ^ 2)) es);
          std_values = map (\<lambda>(i, v). sqrt (sm ! i) + eps) es;
          upd = map2 (\<lambda>(i, v) s. (i, v / s)) es std_values
      in (p\<lparr>data := sparse_add (data p) (- clr) upd\<rparr>, st\<lparr>sum_st := sm\<rparr>))"

text \<open>Lines 108 to 110.\<close>

definition dense_update :: "real \<Rightarrow> real list \<Rightarrow> param \<Rightarrow> pstate \<Rightarrow> param \<times> pstate" where
  "dense_update clr g p st =
     (let sm = map2 (\<lambda>s x. s + 1 * (x * x)) (sum_st st) g;
          std = map (\<lambda>s. sqrt s + eps) sm
      in (p\<lparr>data := map2 (\<lambda>d q. d + (- clr) * q) (data p) (map2 (/) g std)\<rparr>,
          st\<lparr>sum_st := sm\<rparr>))"

section \<open>\<open>step\<close>\<close>

text \<open>
  The body of the inner loop (lines 69 to 110) on one parameter object and its state
  entries; \<open>None\<close> for the state is the empty dictionary that \<open>self.state[p]\<close> gives
  for a parameter \<open>reset\<close> never saw. The result holds the parameter and the state as
  the body leaves them, also when it raises.
\<close>

definition step_param ::
  "bool \<Rightarrow> bool \<Rightarrow> group \<Rightarrow> param \<Rightarrow> pstate option \<Rightarrow> (error + unit) \<times> param \<times> pstate option" where
  "step_param nb nns g p so =
     (case grad p of
        None \<Rightarrow> (Inr (), p, so)
      | Some gr \<Rightarrow>
          (case so of
             None \<Rightarrow> (Inl KeyError, p, so)
           | Some st0 \<Rightarrow>
               (let st = st0\<lparr>step_st := step_st st0 + 1\<rparr> in
                if weight_decay g \<noteq> 0 \<and> is_sparse gr then (Inl SparseWeightDecay, p, Some st)
                else
                  (let gr1 = (if weight_decay g \<noteq> 0
                              then Dense (map2 (\<lambda>x d. x + weight_decay g * d)
                                            (to_dense (length (data p)) gr) (data p))
                              else gr);
                       den = 1 + (real (step_st st) - 1) * lr_decay g
                   in if den = 0 then (Inl ZeroDivisionError, p, Some st)
                      else
                        (let clr = lr g / den in
                         (case l1_cond nb nns (l1_C g) (psize p) of
                            Inl e \<Rightarrow> (Inl e, p, Some st)
                          | Inr True \<Rightarrow>
                              (case gr1 of
                                 Sparse es \<Rightarrow>
                                   (Inl TypeError, p,
                                    Some (st\<lparr>avg_st := sparse_add (avg_st st) 1 es\<rparr>))
                               | Dense gd \<Rightarrow>
                                   (case l1_update clr (l1_C g) gd p st of
                                      (p', st') \<Rightarrow> (Inr (), p', Some st')))
                          | Inr False \<Rightarrow>
                              (case gr1 of
                                 Sparse es \<Rightarrow>
                                   (case sparse_update clr es p st of
                                      (p', st') \<Rightarrow> (Inr (), p', Some st'))
                               | Dense gd \<Rightarrow>
                                   (case dense_update clr gd p st of
                                      (p', st') \<Rightarrow> (Inr (), p', Some st')))))))))"

text \<open>The body at the parameter with handle \<open>q\<close> of the group \<open>g\<close>.\<close>

definition step_at :: "group \<Rightarrow> pid \<Rightarrow> world \<Rightarrow> (error + unit) \<times> world" where
  "step_at g q w =
     (case step_param (no_bias_l1 w) (no_non_singleton_l1 w) g (tensors w q) (state w q) of
        (r, p', so') \<Rightarrow> (r, w\<lparr>state := (state w)(q := so'), tensors := (tensors w)(q := p')\<rparr>))"

text \<open>The two loops of lines 67 and 68; an exception ends them where it is raised.\<close>

fun step_params :: "group \<Rightarrow> pid list \<Rightarrow> world \<Rightarrow> (error + unit) \<times> world" where
  "step_params g [] w = (Inr (), w)"
| "step_params g (q # qs) w =
     (case step_at g q w of
        (Inl e, w') \<Rightarrow> (Inl e, w')
      | (Inr u, w') \<Rightarrow> step_params g qs w')"

fun step_groups :: "group list \<Rightarrow> world \<Rightarrow> (error + unit) \<times> world" where
  "step_groups [] w = (Inr (), w)"
| "step_groups (g # gs) w =
     (case step_params g (params g) w of
        (Inl e, w') \<Rightarrow> (Inl e, w')
      | (Inr u, w') \<Rightarrow> step_groups gs w')"

text \<open>
  \<open>step(closure)\<close>. A closure is any callable: it may change the world and may raise.
  The result is the \<open>loss\<close> variable of the source, \<open>None\<close> without a closure.
\<close>

definition step :: "(world \<Rightarrow> (error + 'l) \<times> world) option \<Rightarrow> world \<Rightarrow> (error + 'l option) \<times> world" where
  "step closure w =
     (case (case closure of
              None \<Rightarrow> (Inr None, w)
            | Some c \<Rightarrow> (case c w of (Inl e, w1) \<Rightarrow> (Inl e, w1) | (Inr l, w1) \<Rightarrow> (Inr (Some l), w1))) of
        (Inl e, w1) \<Rightarrow> (Inl e, w1)
      | (Inr loss, w1) \<Rightarrow>
          (case step_groups (param_groups w1) w1 of
             (Inl e, w2) \<Rightarrow> (Inl e, w2)
           | (Inr u, w2) \<Rightarrow> (Inr loss, w2)))"

section \<open>\<open>reset\<close>, \<open>get_step\<close> and the constructor\<close>

text \<open>The four entries lines 36 to 39 store for a parameter with \<open>n\<close> coordinates.\<close>

definition fresh_state :: "nat \<Rightarrow> pstate" where
  "fresh_state n =
     \<lparr>step_st = 0, sum_st = replicate n 0, avg_st = replicate n 0, zeros_st = replicate n 0\<rparr>"

definition reset_param :: "pid \<Rightarrow> world \<Rightarrow> world" where
  "reset_param q w = w\<lparr>state := (state w)(q \<mapsto> fresh_state (length (data (tensors w q))))\<rparr>"

definition reset :: "world \<Rightarrow> world" where
  "reset w = fold (\<lambda>g w'. fold reset_param (params g) w') (param_groups w) w"

fun get_step_params :: "(pid \<Rightarrow> pstate option) \<Rightarrow> pid list \<Rightarrow> nat option" where
  "get_step_params s [] = None"
| "get_step_params s (q # qs) =
     (case s q of Some st \<Rightarrow> Some (step_st st) | None \<Rightarrow> get_step_params s qs)"

fun get_step_groups :: "(pid \<Rightarrow> pstate option) \<Rightarrow> group list \<Rightarrow> nat option" where
  "get_step_groups s [] = None"
| "get_step_groups s (g # gs) =
     (case get_step_params s (params g) of Some n \<Rightarrow> Some n | None \<Rightarrow> get_step_groups s gs)"

definition get_step :: "world \<Rightarrow> nat option" where
  "get_step w = get_step_groups (state w) (param_groups w)"

text \<open>
  The constructor, for an iterable of parameters (one group): an argument left out takes
  the default of the signature of line 23, the base class (line 25) refuses an empty
  list of parameters and builds the group, and \<open>reset\<close> creates the state.
  \<open>adagrad_world\<close> is the optimizer the constructor leaves when it returns.
\<close>

definition default_arg :: "'a \<Rightarrow> 'a option \<Rightarrow> 'a" where
  "default_arg d a = (case a of None \<Rightarrow> d | Some x \<Rightarrow> x)"

definition adagrad_world ::
  "pid list \<Rightarrow> real option \<Rightarrow> real option \<Rightarrow> real option \<Rightarrow> real option \<Rightarrow> bool option \<Rightarrow> bool option
     \<Rightarrow> (pid \<Rightarrow> param) \<Rightarrow> world" where
  "adagrad_world ps lr_a lr_decay_a weight_decay_a l1_C_a no_bias_l1_a no_non_singleton_l1_a ts =
     reset \<lparr>param_groups =
              [\<lparr>params = ps, lr = default_arg (1 / 100) lr_a, lr_decay = default_arg 0 lr_decay_a,
                weight_decay = default_arg 0 weight_decay_a, l1_C = default_arg 0 l1_C_a\<rparr>],
            state = (\<lambda>q. None),
            no_bias_l1 = default_arg True no_bias_l1_a,
            no_non_singleton_l1 = default_arg True no_non_singleton_l1_a,
            tensors = ts\<rparr>"

definition adagrad_init ::
  "pid list \<Rightarrow> real option \<Rightarrow> real option \<Rightarrow> real option \<Rightarrow> real option \<Rightarrow> bool option \<Rightarrow> bool option
     \<Rightarrow> (pid \<Rightarrow> param) \<Rightarrow> error + world" where
  "adagrad_init ps lr_a lr_decay_a weight_decay_a l1_C_a no_bias_l1_a no_non_singleton_l1_a ts =
     (if ps = [] then Inl ValueError
      else Inr (adagrad_world ps lr_a lr_decay_a weight_decay_a l1_C_a no_bias_l1_a
                  no_non_singleton_l1_a ts))"

section \<open>Calling \<open>step\<close> repeatedly\<close>

text \<open>The parameters the optimizer holds, in the order the loops visit them.\<close>

definition all_params :: "world \<Rightarrow> pid list" where
  "all_params w = concat (map params (param_groups w))"

text \<open>
  A training loop computes the gradients of all parameters (the backward pass writes
  \<open>p.grad\<close>) and then calls \<open>step()\<close>. \<open>run_steps\<close> does so once for every element of
  a list of gradient assignments and stops at the first call that raises.
\<close>

definition set_grads :: "(pid \<Rightarrow> gradient option) \<Rightarrow> world \<Rightarrow> world" where
  "set_grads gs w = w\<lparr>tensors := (\<lambda>q. (tensors w q)\<lparr>grad := gs q\<rparr>)\<rparr>"

fun run_steps :: "(pid \<Rightarrow> gradient option) list \<Rightarrow> world \<Rightarrow> (error + unit) \<times> world" where
  "run_steps [] w = (Inr (), w)"
| "run_steps (gs # rest) w =
     (case step (None :: (world \<Rightarrow> (error + unit) \<times> world) option) (set_grads gs w) of
        (Inl e, w') \<Rightarrow> (Inl e, w')
      | (Inr l, w') \<Rightarrow> run_steps rest w')"

section \<open>Training from a configuration (mung/config/torch\_ext/learn.py)\<close>

text \<open>
  A data set is the list of its examples. The configuration is a dictionary; \<open>int(...)\<close>
  and \<open>float(...)\<close> are the conversions \<open>py_int\<close> and \<open>py_float\<close>, which give
  \<open>None\<close> where Python raises \<open>ValueError\<close>. \<open>Trainer\<close>, the data set class and the
  random permutation that \<open>shuffle\<close> draws are not part of the two source files: the
  trainer's \<open>train\<close> and the permutation are parameters, and \<open>train\<close> receives its
  arguments as a record.
\<close>

record 'x train_args =
  ta_max_evaluation :: bool
  ta_data :: "'x list"
  ta_iterations :: int
  ta_batch_size :: int
  ta_optimizer_type :: string
  ta_lr :: real
  ta_weight_decay :: real
  ta_grad_clip :: real
  ta_log_interval :: int

definition lookup :: "(string \<Rightarrow> 'v option) \<Rightarrow> string \<Rightarrow> error + 'v" where
  "lookup d k = (case d k of None \<Rightarrow> Inl KeyError | Some v \<Rightarrow> Inr v)"

definition convert :: "('v \<Rightarrow> 'a option) \<Rightarrow> 'v \<Rightarrow> error + 'a" where
  "convert f v = (case f v of None \<Rightarrow> Inl ValueError | Some a \<Rightarrow> Inr a)"

definition bind_err :: "error + 'a \<Rightarrow> ('a \<Rightarrow> error + 'b) \<Rightarrow> error + 'b" where
  "bind_err m f = (case m of Inl e \<Rightarrow> Inl e | Inr a \<Rightarrow> f a)"

text \<open>
  Modelled from the spec: \<open>get_subset\<close> of the data set class, which is not among the
  source files. The specification gives a data set "shuffle-in-place and
  contiguous-subset selection": \<open>shuffle\<close> changes the data set it is called on,
  \<open>get_subset(start, end)\<close> returns the selected examples as a data set of their own.
\<close>

definition get_subset :: "nat \<Rightarrow> nat \<Rightarrow> 'x list \<Rightarrow> 'x list" where
  "get_subset start end_ix xs = take (end_ix - start) (drop start xs)"

text \<open>
  \<open>train_from_config\<close>. Line 20 calls \<open>get_subset\<close> as a statement: its result
  (\<open>subset\<close> below) is bound to no name, and \<open>data\<close> of line 33 (\<open>data'\<close> below) is the object
  of line 17. The second component of the result is the named data set as the call leaves
  it.
\<close>

definition train_from_config ::
  "('v \<Rightarrow> int option) \<Rightarrow> ('v \<Rightarrow> real option) \<Rightarrow> ('v \<Rightarrow> string) \<Rightarrow> ('x list \<Rightarrow> 'x list)
     \<Rightarrow> ('x train_args \<Rightarrow> 'r)
     \<Rightarrow> (string \<Rightarrow> 'v option) \<Rightarrow> 'e list \<Rightarrow> (string \<Rightarrow> 'x list option)
     \<Rightarrow> (error + 'r) \<times> 'x list option" where
  "train_from_config py_int py_float py_str shuffle train config evaluations data_sets =
     (case bind_err (lookup config ''data'') (\<lambda>name. lookup data_sets (py_str name)) of
        Inl e \<Rightarrow> (Inl e, None)
      | Inr data0 \<Rightarrow>
          (case (if config ''data_size'' \<noteq> None
                 then (let data1 = shuffle data0 in
                       (case bind_err (lookup config ''data_size'') (convert py_int) of
                          Inl e \<Rightarrow> (Inl e, data1)
                        | Inr n \<Rightarrow> (let subset = get_subset 0 (nat n) data1 in (Inr (), data1))))
                 else (Inr (), data0)) of
             (Inl e, data') \<Rightarrow> (Inl e, Some data')
           | (Inr u, data') \<Rightarrow>
               (bind_err (if evaluations = [] then Inl IndexError else Inr ()) (\<lambda>u.
                bind_err (bind_err (lookup config ''max_evaluation'') (convert py_int)) (\<lambda>me.
                bind_err (bind_err (lookup config ''iterations'') (convert py_int)) (\<lambda>iterations.
                bind_err (bind_err (lookup config ''batch_size'') (convert py_int)) (\<lambda>batch_size.
                bind_err (lookup config ''optimizer_type'') (\<lambda>optimizer_type.
                bind_err (bind_err (lookup config ''learning_rate'') (convert py_float)) (\<lambda>learning_rate.
                bind_err (bind_err (lookup config ''weight_decay'') (convert py_float)) (\<lambda>wd.
                bind_err (bind_err (lookup config ''gradient_clipping'') (convert py_float)) (\<lambda>gradient_clipping.
                bind_err (bind_err (lookup config ''log_interval'') (convert py_int)) (\<lambda>log_interval.
                  Inr (train \<lparr>ta_max_evaluation = (me \<noteq> 0), ta_data = data',
                              ta_iterations = iterations, ta_batch_size = batch_size,
                              ta_optimizer_type = py_str optimizer_type, ta_lr = learning_rate,
                              ta_weight_decay = wd, ta_grad_clip = gradient_clipping,
                              ta_log_interval = log_interval\<rparr>)))))))))),
                Some data')))"

section \<open>Example worlds\<close>

text \<open>
  \<open>wd_world\<close>: one group with weight decay on two parameters, the first with a dense
  and the second with a sparse gradient. \<open>wd_param\<close>: a parameter with the entry 2 and
  the dense gradient 1. \<open>plain_world\<close>: one parameter without a
  gradient; \<open>loss_closure\<close> is a closure that computes the gradients and returns the
  loss 42.
\<close>

definition wd_group :: group where
  "wd_group = \<lparr>params = [0, 1], lr = 1, lr_decay = 0, weight_decay = 1 / 2, l1_C = 0\<rparr>"

definition wd_world :: world where
  "wd_world =
     \<lparr>param_groups = [wd_group], state = (\<lambda>q. Some (fresh_state 1)),
      no_bias_l1 = True, no_non_singleton_l1 = True,
      tensors = (\<lambda>q. if q = 0 then \<lparr>psize = [1], data = [0], grad = Some (Dense [1])\<rparr>
                      else \<lparr>psize = [1], data = [0], grad = Some (Sparse [(0, 1)])\<rparr>)\<rparr>"

definition wd_param :: param where
  "wd_param = \<lparr>psize = [1], data = [2], grad = Some (Dense [1])\<rparr>"

definition loss_closure :: "world \<Rightarrow> (error + int) \<times> world" where
  "loss_closure w = (Inr 42, set_grads (\<lambda>q. Some (Dense [1])) w)"

definition plain_world :: world where
  "plain_world =
     \<lparr>param_groups = [\<lparr>params = [0], lr = 1, lr_decay = 0, weight_decay = 0, l1_C = 0\<rparr>],
      state = (\<lambda>q. Some (fresh_state 1)), no_bias_l1 = True, no_non_singleton_l1 = True,
      tensors = (\<lambda>q. \<lparr>psize = [1], data = [5], grad = None\<rparr>)\<rparr>"

text \<open>
  \<open>scenario_world a b c\<close>: the optimizer the constructor gives for \<open>lr = 0.1\<close> and
  the defaults otherwise, on one parameter of shape \<open>[3]\<close> with the entries \<open>a\<close>, \<open>b\<close>,
  \<open>c\<close>.
\<close>

definition scenario_world :: "real \<Rightarrow> real \<Rightarrow> real \<Rightarrow> world" where
  "scenario_world a b c =
     adagrad_world [0] (Some (1 / 10)) None None None None None
       (\<lambda>q. \<lparr>psize = [3], data = [a, b, c], grad = None\<rparr>)"

text \<open>
  A configuration with \<open>data_size = 50\<close> for a data set of 200 examples. Its values
  are strings and numbers; \<open>num_of\<close>, \<open>real_of\<close> and \<open>str_of\<close> read them.
\<close>

datatype cval = CStr string | CNum int

definition num_of :: "cval \<Rightarrow> int option" where
  "num_of v = (case v of CNum n \<Rightarrow> Some n | CStr s \<Rightarrow> None)"

definition real_of :: "cval \<Rightarrow> real option" where
  "real_of v = (case v of CNum n \<Rightarrow> Some (real_of_int n) | CStr s \<Rightarrow> None)"

definition str_of :: "cval \<Rightarrow> string" where
  "str_of v = (case v of CStr s \<Rightarrow> s | CNum n \<Rightarrow> [])"

definition example_config :: "string \<Rightarrow> cval option" where
  "example_config =
     map_of [(''data'', CStr ''train''), (''data_size'', CNum 50), (''max_evaluation'', CNum 1),
             (''iterations'', CNum 10), (''batch_size'', CNum 5),
             (''optimizer_type'', CStr ''ADAGRAD_MUNG''), (''learning_rate'', CNum 1),
             (''weight_decay'', CNum 0), (''gradient_clipping'', CNum 5),
             (''log_interval'', CNum 2)]"

definition example_data_sets :: "string \<Rightarrow> nat list option" where
  "example_data_sets = map_of [(''train'', [0..<200])]"

section \<open>What a call of \<open>step\<close> leaves alone\<close>

text \<open>
  \<open>kept w w'\<close>: the groups, the two flags, every parameter's shape and gradient, and
  which parameters have state entries are the same in \<open>w'\<close> as in \<open>w\<close>.
\<close>

definition kept :: "world \<Rightarrow> world \<Rightarrow> bool" where
  "kept w w' \<longleftrightarrow>
     param_groups w' = param_groups w \<and> no_bias_l1 w' = no_bias_l1 w \<and>
     no_non_singleton_l1 w' = no_non_singleton_l1 w \<and>
     (\<forall>q. psize (tensors w' q) = psize (tensors w q) \<and>
          grad (tensors w' q) = grad (tensors w q) \<and>
          (state w' q = None) = (state w q = None))"

section \<open>Path selection and the constructor's defaults\<close>

lemma l1_cond_cons:
  "l1_cond nb nns c (d0 # ds) =
     Inr (c \<noteq> 0 \<and> (\<not> nb \<or> ((length (d0 # ds) > 1 \<or> d0 > 1) \<and> (\<not> nns \<or> d0 = 1))))"
  by (cases ds) (auto simp: l1_cond_def split: bool.splits)

lemma l1_cond_nil:
  "l1_cond nb nns c [] = (if c \<noteq> 0 \<and> nb then Inl DimensionError else Inr (c \<noteq> 0))"
  by (auto simp: l1_cond_def)

lemma fold_reset_param_flags:
  "no_bias_l1 (fold reset_param qs w) = no_bias_l1 w \<and>
   no_non_singleton_l1 (fold reset_param qs w) = no_non_singleton_l1 w \<and>
   param_groups (fold reset_param qs w) = param_groups w \<and>
   tensors (fold reset_param qs w) = tensors w"
  by (induction qs arbitrary: w) (auto simp: reset_param_def)

lemma fold_reset_groups_flags:
  "no_bias_l1 (fold (\<lambda>g w'. fold reset_param (params g) w') gs w) = no_bias_l1 w \<and>
   no_non_singleton_l1 (fold (\<lambda>g w'. fold reset_param (params g) w') gs w) = no_non_singleton_l1 w \<and>
   param_groups (fold (\<lambda>g w'. fold reset_param (params g) w') gs w) = param_groups w \<and>
   tensors (fold (\<lambda>g w'. fold reset_param (params g) w') gs w) = tensors w"
  by (induction gs arbitrary: w) (auto simp: fold_reset_param_flags)

lemma reset_frame:
  "no_bias_l1 (reset w) = no_bias_l1 w" "no_non_singleton_l1 (reset w) = no_non_singleton_l1 w"
  "param_groups (reset w) = param_groups w" "tensors (reset w) = tensors w"
  by (simp_all add: reset_def fold_reset_groups_flags)

lemma init_defaults:
  "ps \<noteq> [] \<Longrightarrow>
   \<exists>w. adagrad_init ps a b c d None None ts = Inr w \<and> no_bias_l1 w \<and> no_non_singleton_l1 w"
  by (simp add: adagrad_init_def adagrad_world_def reset_frame default_arg_def)

section \<open>Sparse tensors and the sparse update\<close>

lemma length_sparse_add: "length (sparse_add xs c es) = length xs"
  by (induction xs c es rule: sparse_add.induct) simp_all

lemma sparse_add_nth:
  "i < length xs \<Longrightarrow> sparse_add xs c es ! i = xs ! i + c * total es i"
proof (induction xs c es rule: sparse_add.induct)
  case (1 xs c)
  then show ?case by (simp add: total_def)
next
  case (2 xs c j v es)
  then show ?case
    by (cases "j = i") (simp_all add: total_def algebra_simps)
qed

lemma sparse_add_untouched:
  "i \<notin> fst ` set es \<Longrightarrow> sparse_add xs c es ! i = xs ! i"
proof (induction xs c es rule: sparse_add.induct)
  case (1 xs c)
  then show ?case by simp
next
  case (2 xs c j v es)
  then show ?case by (cases "j = i") auto
qed

lemma total_map_distinct:
  "distinct js \<Longrightarrow> total (map (\<lambda>j. (j, f j)) js) i = (if i \<in> set js then f i else 0)"
  by (induction js) (auto simp: total_def)

lemma total_notin: "i \<notin> fst ` set es \<Longrightarrow> total es i = 0"
  by (induction es) (auto simp: total_def)

lemma coalesce_alt: "coalesce es = map (\<lambda>j. (j, total es j)) (sort (remdups (map fst es)))"
  by (simp add: coalesce_def total_def)

lemma coalesce_keys: "fst ` set (coalesce es) = fst ` set es"
  by (simp add: coalesce_def image_image)

lemma map2_same: "map2 f (map g xs) (map h xs) = map (\<lambda>x. f (g x) (h x)) xs"
  by (induction xs) simp_all

lemma to_dense_sparse_nth: "i < n \<Longrightarrow> to_dense n (Sparse es) ! i = total es i"
  by (simp add: to_dense_def sparse_add_nth)

lemma length_to_dense_sparse: "length (to_dense n (Sparse es)) = n"
  by (simp add: to_dense_def length_sparse_add)

lemma sparse_update_alt:
  "sparse_update clr es p st =
     (let js = sort (remdups (map fst es));
          sm = sparse_add (sum_st st) 1 (map (\<lambda>j. (j, (total es j)\<^sup>2)) js)
      in (p\<lparr>data := sparse_add (data p) (- clr)
                        (map (\<lambda>j. (j, total es j / (sqrt (sm ! j) + eps))) js)\<rparr>,
          st\<lparr>sum_st := sm\<rparr>))"
  by (simp add: sparse_update_def Let_def coalesce_alt comp_def map2_same)

lemma sparse_update_sum_nth:
  "i < length (sum_st st) \<Longrightarrow>
   sum_st (snd (sparse_update clr es p st)) ! i =
     sum_st st ! i + (if i \<in> fst ` set es then (total es i)\<^sup>2 else 0)"
  by (simp add: sparse_update_alt Let_def sparse_add_nth total_map_distinct)

lemma sparse_update_data_nth:
  "i < length (data p) \<Longrightarrow>
   data (fst (sparse_update clr es p st)) ! i =
     data p ! i - clr * (if i \<in> fst ` set es
        then total es i / (sqrt (sum_st (snd (sparse_update clr es p st)) ! i) + eps) else 0)"
  by (simp add: sparse_update_alt Let_def sparse_add_nth total_map_distinct)

lemma sparse_update_lengths:
  "length (data (fst (sparse_update clr es p st))) = length (data p)"
  "length (sum_st (snd (sparse_update clr es p st))) = length (sum_st st)"
  by (simp_all add: sparse_update_alt Let_def length_sparse_add)

lemma sparse_update_rest:
  "psize (fst (sparse_update clr es p st)) = psize p"
  "grad (fst (sparse_update clr es p st)) = grad p"
  "step_st (snd (sparse_update clr es p st)) = step_st st"
  "avg_st (snd (sparse_update clr es p st)) = avg_st st"
  "zeros_st (snd (sparse_update clr es p st)) = zeros_st st"
  by (simp_all add: sparse_update_def Let_def)

lemma sparse_update_untouched:
  "i \<notin> fst ` set es \<Longrightarrow>
   data (fst (sparse_update clr es p st)) ! i = data p ! i \<and>
   sum_st (snd (sparse_update clr es p st)) ! i = sum_st st ! i"
  by (simp add: sparse_update_alt Let_def sparse_add_untouched image_image)

lemma dense_update_nth:
  "i < length (data p) \<Longrightarrow> length g = length (data p) \<Longrightarrow> length (sum_st st) = length (data p) \<Longrightarrow>
   sum_st (snd (dense_update clr g p st)) ! i = sum_st st ! i + g ! i * g ! i \<and>
   data (fst (dense_update clr g p st)) ! i =
     data p ! i - clr * (g ! i / (sqrt (sum_st st ! i + g ! i * g ! i) + eps))"
  by (simp add: dense_update_def Let_def)

lemma dense_update_lengths:
  "length g = length (data p) \<Longrightarrow> length (sum_st st) = length (data p) \<Longrightarrow>
   length (data (fst (dense_update clr g p st))) = length (data p) \<and>
   length (sum_st (snd (dense_update clr g p st))) = length (data p)"
  by (simp add: dense_update_def Let_def)

lemma dense_update_rest:
  "psize (fst (dense_update clr g p st)) = psize p"
  "grad (fst (dense_update clr g p st)) = grad p"
  "step_st (snd (dense_update clr g p st)) = step_st st"
  "avg_st (snd (dense_update clr g p st)) = avg_st st"
  "zeros_st (snd (dense_update clr g p st)) = zeros_st st"
  by (simp_all add: dense_update_def Let_def)

lemma sparse_dense_agree:
  assumes cover: "fst ` set es = {..<length (data p)}"
    and len: "length (sum_st st) = length (data p)"
  shows "sparse_update clr es p st =
     (case dense_update clr (to_dense (length (data p)) (Sparse es)) p st of
        (p', st') \<Rightarrow> (p', st'))"
proof -
  let ?n = "length (data p)"
  let ?g = "to_dense ?n (Sparse es)"
  let ?S = "sparse_update clr es p st"
  let ?D = "dense_update clr ?g p st"
  have lg: "length ?g = ?n" by (rule length_to_dense_sparse)
  have sum_eq: "sum_st (snd ?S) = sum_st (snd ?D)"
  proof (rule nth_equalityI)
    show "length (sum_st (snd ?S)) = length (sum_st (snd ?D))"
      using dense_update_lengths[OF lg len] by (simp add: sparse_update_lengths len)
  next
    fix i assume "i < length (sum_st (snd ?S))"
    then have i: "i < ?n" by (simp add: sparse_update_lengths len)
    then have "i \<in> fst ` set es" using cover by simp
    then show "sum_st (snd ?S) ! i = sum_st (snd ?D) ! i"
      using i dense_update_nth[OF i lg len, of clr]
      by (simp add: sparse_update_sum_nth len to_dense_sparse_nth power2_eq_square)
  qed
  have data_eq: "data (fst ?S) = data (fst ?D)"
  proof (rule nth_equalityI)
    show "length (data (fst ?S)) = length (data (fst ?D))"
      using dense_update_lengths[OF lg len] by (simp add: sparse_update_lengths)
  next
    fix i assume "i < length (data (fst ?S))"
    then have i: "i < ?n" by (simp add: sparse_update_lengths)
    then have "i \<in> fst ` set es" using cover by simp
    then show "data (fst ?S) ! i = data (fst ?D) ! i"
      using i dense_update_nth[OF i lg len, of clr]
      by (simp add: sparse_update_data_nth sparse_update_sum_nth len to_dense_sparse_nth
          power2_eq_square)
  qed
  have "fst ?S = fst ?D"
    using data_eq by (simp add: sparse_update_def dense_update_def Let_def)
  moreover have "snd ?S = snd ?D"
    using sum_eq by (simp add: sparse_update_def dense_update_def Let_def)
  ultimately show ?thesis by (simp add: prod_eq_iff split: prod.splits)
qed

section \<open>The eligibility rule and its two flags\<close>

lemma l1_cond_against_conjunction:
  "(l1_cond nb nns c (d0 # ds) = Inr (c \<noteq> 0 \<and> spec_l1_eligible nb nns (length (d0 # ds)) d0)) =
     (c = 0 \<or> nb \<or> \<not> nns \<or> d0 = 1)"
  by (auto simp: l1_cond_cons spec_l1_eligible_def)

lemma conjunction_excludes_non_singleton:
  "spec_l1_eligible False True (length [2 :: nat]) 2 = False"
  by (simp add: spec_l1_eligible_def)

text \<open>
  C1. The condition of line 83 at \<open>no_bias_l1 = False\<close>, \<open>no_non_singleton_l1 = True\<close>
  and a parameter of shape \<open>[2]\<close>, whose first dimension is not 1: the condition holds
  and the body makes the L1 update, replacing the parameter's entries, although the
  flag that is to keep parameters with a first dimension other than 1 out is set. With
  \<open>no_bias_l1 = True\<close> the same parameter is left out. The conjunction of the two shape
  conditions that the claim states is false at this parameter (lemma
  \<open>conjunction_excludes_non_singleton\<close>); the code and the conjunction differ exactly
  where \<open>l1_C\<close> is not zero, \<open>no_bias_l1\<close> is off, \<open>no_non_singleton_l1\<close> is on and the
  first dimension is not 1 (lemma \<open>l1_cond_against_conjunction\<close>).
\<close>

theorem l1_flag_ignored:
  "l1_cond False True (1 / 2) [2] = Inr True \<and>
   l1_cond True True (1 / 2) [2] = Inr False \<and>
   step_param False True
     \<lparr>params = [0], lr = 1, lr_decay = 0, weight_decay = 0, l1_C = 1 / 2\<rparr>
     \<lparr>psize = [2], data = [5, 5], grad = Some (Dense [1, 1])\<rparr>
     (Some (fresh_state 2)) =
     (Inr (),
      \<lparr>psize = [2], data = [- (1 / 2) / (1 + eps), - (1 / 2) / (1 + eps)],
        grad = Some (Dense [1, 1])\<rparr>,
      Some \<lparr>step_st = 1, sum_st = [1, 1], avg_st = [1, 1], zeros_st = [0, 0]\<rparr>)"
  by (simp add: l1_cond_def step_param_def fresh_state_def l1_update_def Let_def numeral_2_eq_2)

section \<open>The sparse update against the dense update\<close>

lemma dense_update_grad_irrelevant:
  "dense_update clr gd (p\<lparr>grad := x\<rparr>) st =
     (case dense_update clr gd p st of (p', st') \<Rightarrow> (p'\<lparr>grad := x\<rparr>, st'))"
  by (simp add: dense_update_def Let_def)

text \<open>
  C3. A sparse gradient whose coordinates cover the whole tensor, with weight decay off
  and the L1 update not selected: the call of the loop body on the sparse gradient
  (entries for the same coordinate are summed by \<open>coalesce\<close>) returns, and leaves the
  same parameter entries and the same state (\<open>sum\<close> included) as the call on the dense
  gradient with the same entries. Over the reals the two agree exactly.
\<close>

theorem sparse_path_agrees_with_dense:
  assumes "grad p = Some (Sparse es)"
    and "fst ` set es = {..<length (data p)}"
    and "length (sum_st st0) = length (data p)"
    and "weight_decay g = 0"
    and "l1_cond nb nns (l1_C g) (psize p) = Inr False"
    and "1 + (real (step_st st0 + 1) - 1) * lr_decay g \<noteq> 0"
  shows "\<exists>p' st'.
           step_param nb nns g p (Some st0) = (Inr (), p', Some st') \<and>
           step_param nb nns g
               (p\<lparr>grad := Some (Dense (to_dense (length (data p)) (Sparse es)))\<rparr>) (Some st0) =
             (Inr (), p'\<lparr>grad := Some (Dense (to_dense (length (data p)) (Sparse es)))\<rparr>, Some st')"
proof -
  let ?st = "st0\<lparr>step_st := step_st st0 + 1\<rparr>"
  let ?clr = "lr g / (1 + (real (step_st ?st) - 1) * lr_decay g)"
  let ?gd = "to_dense (length (data p)) (Sparse es)"
  obtain p' st' where S: "sparse_update ?clr es p ?st = (p', st')"
    by (cases "sparse_update ?clr es p ?st")
  have len: "length (sum_st ?st) = length (data p)" using assms(3) by simp
  have D: "dense_update ?clr ?gd p ?st = (p', st')"
    using sparse_dense_agree [OF assms(2) len, of ?clr] S
    by (simp split: prod.splits)
  have 1: "step_param nb nns g p (Some st0) = (Inr (), p', Some st')"
    using assms(1,4,5,6) S by (simp add: step_param_def Let_def)
  have 2: "step_param nb nns g (p\<lparr>grad := Some (Dense ?gd)\<rparr>) (Some st0) =
             (Inr (), p'\<lparr>grad := Some (Dense ?gd)\<rparr>, Some st')"
    using assms(4,5,6) D
    by (simp add: step_param_def Let_def dense_update_grad_irrelevant)
  show ?thesis using 1 2 by blast
qed

text \<open>
  C6. On the sparse update, every coordinate that does not occur in the gradient keeps
  its parameter entry and its \<open>sum\<close> entry; the sizes of both tensors and the
  \<open>avg\<close> tensor are unchanged.
\<close>

theorem sparse_path_frame:
  assumes "grad p = Some (Sparse es)"
    and "weight_decay g = 0"
    and "l1_cond nb nns (l1_C g) (psize p) = Inr False"
    and "1 + (real (step_st st0 + 1) - 1) * lr_decay g \<noteq> 0"
  shows "\<exists>p' st'.
           step_param nb nns g p (Some st0) = (Inr (), p', Some st') \<and>
           length (data p') = length (data p) \<and>
           length (sum_st st') = length (sum_st st0) \<and>
           avg_st st' = avg_st st0 \<and>
           (\<forall>i. i \<notin> fst ` set es \<longrightarrow>
              data p' ! i = data p ! i \<and> sum_st st' ! i = sum_st st0 ! i)"
proof -
  let ?st = "st0\<lparr>step_st := step_st st0 + 1\<rparr>"
  let ?clr = "lr g / (1 + (real (step_st ?st) - 1) * lr_decay g)"
  obtain p' st' where S: "sparse_update ?clr es p ?st = (p', st')"
    by (cases "sparse_update ?clr es p ?st")
  then have ps: "p' = fst (sparse_update ?clr es p ?st)" "st' = snd (sparse_update ?clr es p ?st)"
    by simp_all
  have 1: "step_param nb nns g p (Some st0) = (Inr (), p', Some st')"
    using assms S by (simp add: step_param_def Let_def)
  have 2: "length (data p') = length (data p)" "length (sum_st st') = length (sum_st st0)"
    "avg_st st' = avg_st st0"
    unfolding ps by (simp_all add: sparse_update_lengths sparse_update_rest)
  have 3: "\<forall>i. i \<notin> fst ` set es \<longrightarrow>
              data p' ! i = data p ! i \<and> sum_st st' ! i = sum_st st0 ! i"
    unfolding ps using sparse_update_untouched [of _ es ?clr p ?st] by simp
  show ?thesis using 1 2 3 by blast
qed


theorem sparse_path_agrees_with_dense_witness:
  "fst ` set [(1, 2), (0, 1), (1, 1 :: real)] = {..<length [5, 7 :: real]} \<and>
   l1_cond True True 0 [2] = Inr False \<and>
   (\<exists>p' st'.
      step_param True True \<lparr>params = [0], lr = 1, lr_decay = 0, weight_decay = 0, l1_C = 0\<rparr>
        \<lparr>psize = [2], data = [5, 7], grad = Some (Sparse [(1, 2), (0, 1), (1, 1)])\<rparr>
        (Some (fresh_state 2)) = (Inr (), p', Some st') \<and>
      step_param True True \<lparr>params = [0], lr = 1, lr_decay = 0, weight_decay = 0, l1_C = 0\<rparr>
        \<lparr>psize = [2], data = [5, 7],
          grad = Some (Dense (to_dense (length [5, 7 :: real]) (Sparse [(1, 2), (0, 1), (1, 1)])))\<rparr>
        (Some (fresh_state 2)) =
        (Inr (), p'\<lparr>grad := Some (Dense (to_dense (length [5, 7 :: real]) (Sparse [(1, 2), (0, 1), (1, 1)])))\<rparr>,
         Some st'))"
proof -
  let ?es = "[(1, 2), (0, 1), (1, 1 :: real)]"
  let ?p = "\<lparr>psize = [2], data = [5, 7], grad = Some (Sparse ?es)\<rparr>"
  let ?g = "\<lparr>params = [0], lr = 1, lr_decay = 0, weight_decay = 0, l1_C = 0\<rparr>"
  have h2: "fst ` set ?es = {..<length (data ?p)}" by auto
  have h5: "l1_cond True True (l1_C ?g) (psize ?p) = Inr False" by (simp add: l1_cond_def)
  show ?thesis
    using h2 h5 sparse_path_agrees_with_dense [of ?p ?es "fresh_state 2" ?g True True, OF _ h2 _ _ h5]
    by (simp add: fresh_state_def)
qed

theorem sparse_path_frame_witness:
  "l1_cond True True 0 [3] = Inr False \<and>
   (2 :: nat) \<notin> fst ` set [(1, 2), (0, 1), (1, 1 :: real)] \<and>
   (\<exists>p' st'.
      step_param True True \<lparr>params = [0], lr = 1, lr_decay = 0, weight_decay = 0, l1_C = 0\<rparr>
        \<lparr>psize = [3], data = [5, 7, 9], grad = Some (Sparse [(1, 2), (0, 1), (1, 1)])\<rparr>
        (Some (fresh_state 3)) = (Inr (), p', Some st') \<and>
      length (data p') = 3 \<and> data p' ! 2 = 9 \<and> sum_st st' ! 2 = 0)"
proof -
  let ?es = "[(1, 2), (0, 1), (1, 1 :: real)]"
  let ?p = "\<lparr>psize = [3], data = [5, 7, 9], grad = Some (Sparse ?es)\<rparr>"
  let ?g = "\<lparr>params = [0], lr = 1, lr_decay = 0, weight_decay = 0, l1_C = 0\<rparr>"
  have h3: "l1_cond True True (l1_C ?g) (psize ?p) = Inr False" by (simp add: l1_cond_def)
  have n: "(2 :: nat) \<notin> fst ` set ?es" by simp
  obtain p' st' where r:
    "step_param True True ?g ?p (Some (fresh_state 3)) = (Inr (), p', Some st')"
    "length (data p') = length (data ?p)"
    "\<forall>i. i \<notin> fst ` set ?es \<longrightarrow>
       data p' ! i = data ?p ! i \<and> sum_st st' ! i = sum_st (fresh_state 3) ! i"
    using sparse_path_frame [of ?p ?es ?g True True "fresh_state 3", OF _ _ h3]
    by (auto simp: fresh_state_def)
  from r(3) n have "data p' ! 2 = 9 \<and> sum_st st' ! 2 = 0"
    by (simp add: fresh_state_def numeral_3_eq_3)
  with r(1,2) h3 n show ?thesis by auto
qed

section \<open>The L1 update\<close>

lemma l1_update_grad_irrelevant:
  "l1_update clr c G (p\<lparr>grad := x\<rparr>) st =
     (case l1_update clr c G p st of (p', st') \<Rightarrow> (p'\<lparr>grad := x\<rparr>, st'))"
  by (simp add: l1_update_def Let_def)

lemma l1_update_data_irrelevant:
  "l1_update clr c G (p\<lparr>data := d\<rparr>) st = l1_update clr c G p st"
  by (simp add: l1_update_def Let_def)

lemma l1_update_state:
  "step_st (snd (l1_update clr c G p st)) = step_st st"
  "zeros_st (snd (l1_update clr c G p st)) = zeros_st st"
  "avg_st (snd (l1_update clr c G p st)) = map2 (\<lambda>a x. a + x) (avg_st st) G"
  "sum_st (snd (l1_update clr c G p st)) = map2 (\<lambda>s x. s + x * x) (sum_st st) G"
  "psize (fst (l1_update clr c G p st)) = psize p"
  "grad (fst (l1_update clr c G p st)) = grad p"
  by (simp_all add: l1_update_def Let_def)

lemma l1_update_data:
  assumes "length (avg_st st) = n" and "length (sum_st st) = n" and "length G = n"
    and "zeros_st st = replicate n 0"
  shows "data (fst (l1_update clr c G p st)) =
     map2 (\<lambda>a s. sgn (- (a / real (step_st st))) * (clr * real (step_st st) / (sqrt s + eps)) *
                  max (\<bar>a / real (step_st st)\<bar> - c) 0)
       (avg_st (snd (l1_update clr c G p st))) (sum_st (snd (l1_update clr c G p st)))"
  using assms by (intro nth_equalityI) (simp_all add: l1_update_def Let_def)

lemma length_to_dense:
  "length (to_dense n gr) = (case gr of Dense gd \<Rightarrow> length gd | Sparse es \<Rightarrow> n)"
  by (simp add: to_dense_def length_sparse_add split: gradient.splits)

text \<open>
  C2, as amended. On the L1 update with weight decay off, for a dense gradient of the
  parameter's size and a state whose tensors have the parameter's size and whose
  \<open>zeros\<close> tensor is zero: the call of the loop body returns, adds the gradient to
  \<open>avg\<close> and its square to \<open>sum\<close>, and sets every entry of the parameter to
  \<open>sign(-g_bar) * (clr * step / (sqrt(sum) + 1e-10)) * max(|g_bar| - l1_C, 0)\<close> with
  \<open>g_bar = avg / step\<close>, read off the state after the accumulation. The value the
  parameter had before has no part in it: any other entries of the same size give
  the same result.
\<close>

theorem l1_path_replaces_value:
  assumes "grad p = Some (Dense gd)" and "weight_decay g = 0"
    and "l1_cond nb nns (l1_C g) (psize p) = Inr True"
    and "1 + (real (step_st st0 + 1) - 1) * lr_decay g \<noteq> 0"
    and "length gd = length (data p)"
    and "length (sum_st st0) = length (data p)" and "length (avg_st st0) = length (data p)"
    and "zeros_st st0 = replicate (length (data p)) 0"
  shows "\<exists>p' st'.
           step_param nb nns g p (Some st0) = (Inr (), p', Some st') \<and>
           step_st st' = step_st st0 + 1 \<and>
           avg_st st' = map2 (\<lambda>a x. a + x) (avg_st st0) gd \<and>
           sum_st st' = map2 (\<lambda>s x. s + x * x) (sum_st st0) gd \<and>
           data p' =
             map2 (\<lambda>a s. sgn (- (a / real (step_st st'))) *
                          (lr g / (1 + (real (step_st st') - 1) * lr_decay g) * real (step_st st') /
                             (sqrt s + eps)) *
                          max (\<bar>a / real (step_st st')\<bar> - l1_C g) 0)
               (avg_st st') (sum_st st') \<and>
           (\<forall>d. length d = length (data p) \<longrightarrow>
              step_param nb nns g (p\<lparr>data := d\<rparr>) (Some st0) = (Inr (), p', Some st'))"
proof -
  let ?st = "st0\<lparr>step_st := step_st st0 + 1\<rparr>"
  let ?clr = "lr g / (1 + (real (step_st ?st) - 1) * lr_decay g)"
  let ?U = "l1_update ?clr (l1_C g) gd p ?st"
  have 1: "step_param nb nns g p (Some st0) = (Inr (), fst ?U, Some (snd ?U))"
    using assms(1-4) by (simp add: step_param_def Let_def split: prod.splits)
  have 2: "step_st (snd ?U) = step_st st0 + 1" by (simp add: l1_update_state)
  have 3: "avg_st (snd ?U) = map2 (\<lambda>a x. a + x) (avg_st st0) gd"
    "sum_st (snd ?U) = map2 (\<lambda>s x. s + x * x) (sum_st st0) gd"
    by (simp_all add: l1_update_state)
  have 4: "data (fst ?U) =
             map2 (\<lambda>a s. sgn (- (a / real (step_st (snd ?U)))) *
                          (lr g / (1 + (real (step_st (snd ?U)) - 1) * lr_decay g) *
                             real (step_st (snd ?U)) / (sqrt s + eps)) *
                          max (\<bar>a / real (step_st (snd ?U))\<bar> - l1_C g) 0)
               (avg_st (snd ?U)) (sum_st (snd ?U))"
    using l1_update_data [of ?st "length (data p)" gd ?clr "l1_C g" p] assms(5-8)
    by (simp add: l1_update_state)
  have 5: "\<forall>d. length d = length (data p) \<longrightarrow>
              step_param nb nns g (p\<lparr>data := d\<rparr>) (Some st0) = (Inr (), fst ?U, Some (snd ?U))"
    using assms(1-4)
    by (simp add: step_param_def Let_def l1_update_data_irrelevant split: prod.splits)
  show ?thesis
    by (intro exI [of _ "fst ?U"] exI [of _ "snd ?U"] conjI) (rule 1 2 3 4 5)+
qed

theorem l1_path_replaces_value_witness:
  "l1_cond True True (1 / 2) [1, 2] = Inr True \<and>
   (\<exists>p' st'.
      step_param True True \<lparr>params = [0], lr = 1, lr_decay = 0, weight_decay = 0, l1_C = 1 / 2\<rparr>
        \<lparr>psize = [1, 2], data = [5, 7], grad = Some (Dense [1, - 2])\<rparr>
        (Some (fresh_state 2)) = (Inr (), p', Some st') \<and>
      step_param True True \<lparr>params = [0], lr = 1, lr_decay = 0, weight_decay = 0, l1_C = 1 / 2\<rparr>
        \<lparr>psize = [1, 2], data = [0, 0], grad = Some (Dense [1, - 2])\<rparr>
        (Some (fresh_state 2)) = (Inr (), p', Some st') \<and>
      data p' = [- (1 / 2) / (1 + eps), (3 / 2) / (2 + eps)])"
proof -
  let ?g = "\<lparr>params = [0], lr = 1, lr_decay = 0, weight_decay = 0, l1_C = 1 / 2\<rparr>"
  let ?p = "\<lparr>psize = [1, 2], data = [5, 7], grad = Some (Dense [1, - 2])\<rparr>"
  have h1: "grad ?p = Some (Dense [1, - 2])" by simp
  have h2: "weight_decay ?g = 0" by simp
  have h3: "l1_cond True True (l1_C ?g) (psize ?p) = Inr True" by (simp add: l1_cond_def)
  have h4: "1 + (real (step_st (fresh_state 2) + 1) - 1) * lr_decay ?g \<noteq> 0" by simp
  have h5: "length [1, - 2 :: real] = length (data ?p)" by simp
  have h6: "length (sum_st (fresh_state 2)) = length (data ?p)" by (simp add: fresh_state_def)
  have h7: "length (avg_st (fresh_state 2)) = length (data ?p)" by (simp add: fresh_state_def)
  have h8: "zeros_st (fresh_state 2) = replicate (length (data ?p)) 0"
    by (simp add: fresh_state_def numeral_2_eq_2)
  obtain p' st' where r:
    "step_param True True ?g ?p (Some (fresh_state 2)) = (Inr (), p', Some st')"
    "step_st st' = step_st (fresh_state 2) + 1"
    "avg_st st' = map2 (\<lambda>a x. a + x) (avg_st (fresh_state 2)) [1, - 2]"
    "sum_st st' = map2 (\<lambda>s x. s + x * x) (sum_st (fresh_state 2)) [1, - 2]"
    "data p' =
       map2 (\<lambda>a s. sgn (- (a / real (step_st st'))) *
                    (lr ?g / (1 + (real (step_st st') - 1) * lr_decay ?g) * real (step_st st') /
                       (sqrt s + eps)) *
                    max (\<bar>a / real (step_st st')\<bar> - l1_C ?g) 0)
         (avg_st st') (sum_st st')"
    "\<forall>d. length d = length (data ?p) \<longrightarrow>
       step_param True True ?g (?p\<lparr>data := d\<rparr>) (Some (fresh_state 2)) = (Inr (), p', Some st')"
    using l1_path_replaces_value [of ?p "[1, - 2]" ?g True True "fresh_state 2",
        OF h1 h2 h3 h4 h5 h6 h7 h8]
    by blast
  have d: "data p' = [- (1 / 2) / (1 + eps), (3 / 2) / (2 + eps)]"
    unfolding r(5) r(2,3,4)
    by (simp add: fresh_state_def numeral_2_eq_2 real_sqrt_abs2)
  have e: "step_param True True ?g \<lparr>psize = [1, 2], data = [0, 0], grad = Some (Dense [1, - 2])\<rparr>
        (Some (fresh_state 2)) = (Inr (), p', Some st')"
    using r(6) [rule_format, of "[0, 0]"] by simp
  show ?thesis using h3 r(1) d e by auto
qed

text \<open>
  A parameter the eligibility rule selects, with weight decay off and a sparse gradient:
  the body raises at line 87 after line 86 has added the gradient to \<open>avg\<close>; the
  parameter's entries and \<open>sum\<close> are as they were.
\<close>

theorem l1_path_sparse_counterexample:
  "l1_cond True True (1 / 2) [1, 2] = Inr True \<and>
   step_param True True \<lparr>params = [0], lr = 1, lr_decay = 0, weight_decay = 0, l1_C = 1 / 2\<rparr>
     \<lparr>psize = [1, 2], data = [5, 7], grad = Some (Sparse [(0, 1), (1, - 2)])\<rparr>
     (Some (fresh_state 2)) =
     (Inl TypeError,
      \<lparr>psize = [1, 2], data = [5, 7], grad = Some (Sparse [(0, 1), (1, - 2)])\<rparr>,
      Some \<lparr>step_st = 1, sum_st = [0, 0], avg_st = [1, - 2], zeros_st = [0, 0]\<rparr>)"
  by (simp add: l1_cond_def step_param_def fresh_state_def Let_def numeral_2_eq_2)

section \<open>What the loop body keeps\<close>

lemma step_param_unfold:
  "step_param nb nns g p so =
     (case grad p of
        None \<Rightarrow> (Inr (), p, so)
      | Some gr \<Rightarrow>
          (case so of
             None \<Rightarrow> (Inl KeyError, p, so)
           | Some st0 \<Rightarrow>
               (let st = st0\<lparr>step_st := step_st st0 + 1\<rparr> in
                if weight_decay g \<noteq> 0 \<and> is_sparse gr then (Inl SparseWeightDecay, p, Some st)
                else
                  (let gr1 = (if weight_decay g \<noteq> 0
                              then Dense (map2 (\<lambda>x d. x + weight_decay g * d)
                                            (to_dense (length (data p)) gr) (data p))
                              else gr);
                       den = 1 + (real (step_st st) - 1) * lr_decay g
                   in if den = 0 then (Inl ZeroDivisionError, p, Some st)
                      else
                        (let clr = lr g / den in
                         (case l1_cond nb nns (l1_C g) (psize p) of
                            Inl e \<Rightarrow> (Inl e, p, Some st)
                          | Inr True \<Rightarrow>
                              (case gr1 of
                                 Sparse es \<Rightarrow>
                                   (Inl TypeError, p,
                                    Some (st\<lparr>avg_st := sparse_add (avg_st st) 1 es\<rparr>))
                               | Dense gd \<Rightarrow>
                                   (Inr (), fst (l1_update clr (l1_C g) gd p st),
                                    Some (snd (l1_update clr (l1_C g) gd p st))))
                          | Inr False \<Rightarrow>
                              (case gr1 of
                                 Sparse es \<Rightarrow>
                                   (Inr (), fst (sparse_update clr es p st),
                                    Some (snd (sparse_update clr es p st)))
                               | Dense gd \<Rightarrow>
                                   (Inr (), fst (dense_update clr gd p st),
                                    Some (snd (dense_update clr gd p st))))))))))"
  unfolding step_param_def case_prod_beta by (rule refl)

lemma step_param_keeps:
  assumes "step_param nb nns g p so = (r, p', so')"
  shows "psize p' = psize p" and "grad p' = grad p" and "(so = None) = (so' = None)"
  using assms
  by (auto simp: step_param_unfold Let_def l1_update_state sparse_update_rest dense_update_rest
      split: option.splits sum.splits bool.splits gradient.splits if_splits)

lemma step_param_counts:
  assumes "step_param nb nns g p (Some st) = (Inr u, p', so')" and "grad p \<noteq> None"
  shows "\<exists>st'. so' = Some st' \<and> step_st st' = Suc (step_st st)"
  using assms
  by (auto simp: step_param_unfold Let_def l1_update_state sparse_update_rest dense_update_rest
      split: option.splits sum.splits bool.splits gradient.splits if_splits)

lemma step_param_no_state:
  assumes "step_param nb nns g p None = (Inr u, p', so')"
  shows "grad p = None"
  using assms by (auto simp: step_param_unfold split: option.splits)

lemma step_param_errors:
  assumes "psize p \<noteq> []" and "0 \<le> lr_decay g" and "so \<noteq> None"
  shows "fst (step_param nb nns g p so) =
     (case grad p of
        None \<Rightarrow> Inr ()
      | Some gr \<Rightarrow>
          if weight_decay g \<noteq> 0 \<and> is_sparse gr then Inl SparseWeightDecay
          else if is_sparse gr \<and> l1_cond nb nns (l1_C g) (psize p) = Inr True then Inl TypeError
          else Inr ())"
proof -
  obtain d0 ds where sz: "psize p = d0 # ds" using assms(1) by (cases "psize p") auto
  obtain st where so: "so = Some st" using assms(3) by auto
  have den: "1 + (real (step_st st + 1) - 1) * lr_decay g \<noteq> 0"
  proof -
    have "0 \<le> real (step_st st) * lr_decay g" using assms(2) by simp
    then show ?thesis by simp
  qed
  obtain b where c: "l1_cond nb nns (l1_C g) (psize p) = Inr b"
    using sz by (simp add: l1_cond_cons)
  show ?thesis
  proof (cases "grad p")
    case None
    then show ?thesis by (simp add: step_param_def)
  next
    case (Some gr)
    show ?thesis
    proof (cases "weight_decay g \<noteq> 0 \<and> is_sparse gr")
      case True
      then show ?thesis using Some so by (simp add: step_param_def)
    next
      case False
      then have nws: "(weight_decay g \<noteq> 0 \<and> is_sparse gr) = False" by simp
      show ?thesis
        using Some so den c
        by (cases b; cases gr)
          (simp_all add: step_param_unfold Let_def nws is_sparse_def del: de_Morgan_conj)
    qed
  qed
qed

lemma kept_refl: "kept w w"
  by (simp add: kept_def)

lemma kept_trans: "kept w w' \<Longrightarrow> kept w' w'' \<Longrightarrow> kept w w''"
  by (simp add: kept_def)

lemma step_at_kept:
  assumes "step_at g q w = (r, w')"
  shows "kept w w'"
proof -
  obtain r0 p' so' where sp:
    "step_param (no_bias_l1 w) (no_non_singleton_l1 w) g (tensors w q) (state w q) = (r0, p', so')"
    by (metis prod_cases3)
  have w': "w' = w\<lparr>state := (state w)(q := so'), tensors := (tensors w)(q := p')\<rparr>"
    using assms sp by (simp add: step_at_def)
  show ?thesis
    using step_param_keeps [OF sp] by (simp add: kept_def w')
qed

lemma step_at_other:
  assumes "step_at g q w = (r, w')" and "q' \<noteq> q"
  shows "state w' q' = state w q'" and "tensors w' q' = tensors w q'"
  using assms by (auto simp: step_at_def split: prod.splits)

lemma step_at_count:
  assumes "step_at g q w = (Inr u, w')" and "grad (tensors w q) \<noteq> None"
  shows "\<exists>st st'. state w q = Some st \<and> state w' q = Some st' \<and> step_st st' = Suc (step_st st)"
proof -
  obtain r0 p' so' where sp:
    "step_param (no_bias_l1 w) (no_non_singleton_l1 w) g (tensors w q) (state w q) = (r0, p', so')"
    by (metis prod_cases3)
  have w': "w' = w\<lparr>state := (state w)(q := so'), tensors := (tensors w)(q := p')\<rparr>"
    and r0: "r0 = Inr u"
    using assms(1) sp by (simp_all add: step_at_def)
  obtain st where st: "state w q = Some st"
    using step_param_no_state [of _ _ g "tensors w q" u p' so'] sp r0 assms(2)
    by (cases "state w q") auto
  obtain st' where "so' = Some st'" "step_st st' = Suc (step_st st)"
    using step_param_counts [of _ _ g "tensors w q" st u p' so'] sp r0 st assms(2) by auto
  then show ?thesis using st by (simp add: w')
qed

lemma step_params_Cons_Inr:
  assumes "step_params g (q # qs) w = (Inr u, w'')"
  obtains u1 w' where "step_at g q w = (Inr u1, w')" and "step_params g qs w' = (Inr u, w'')"
  using assms by (auto split: prod.splits sum.splits)

lemma step_params_kept:
  "step_params g qs w = (r, w') \<Longrightarrow> kept w w'"
proof (induction qs arbitrary: w)
  case Nil
  then show ?case by (simp add: kept_refl)
next
  case (Cons q qs)
  obtain r1 w1 where a: "step_at g q w = (r1, w1)" by (cases "step_at g q w")
  show ?case
  proof (cases r1)
    case (Inl e)
    then show ?thesis using Cons.prems a step_at_kept [OF a] by simp
  next
    case (Inr u1)
    then have "step_params g qs w1 = (r, w')" using Cons.prems a by simp
    then show ?thesis using Cons.IH step_at_kept [OF a] kept_trans by blast
  qed
qed

lemma step_params_other:
  "step_params g qs w = (r, w') \<Longrightarrow> q' \<notin> set qs \<Longrightarrow>
   state w' q' = state w q' \<and> tensors w' q' = tensors w q'"
proof (induction qs arbitrary: w)
  case Nil
  then show ?case by simp
next
  case (Cons q qs)
  obtain r1 w1 where a: "step_at g q w = (r1, w1)" by (cases "step_at g q w")
  have ne: "q' \<noteq> q" and nin: "q' \<notin> set qs" using Cons.prems(2) by auto
  show ?case
  proof (cases r1)
    case (Inl e)
    then show ?thesis using Cons.prems(1) a step_at_other [OF a ne] by simp
  next
    case (Inr u1)
    then have "step_params g qs w1 = (r, w')" using Cons.prems(1) a by simp
    then show ?thesis using Cons.IH nin step_at_other [OF a ne] by simp
  qed
qed

lemma step_params_count:
  "step_params g qs w = (Inr u, w') \<Longrightarrow> distinct qs \<Longrightarrow>
   \<forall>q\<in>set qs. grad (tensors w q) \<noteq> None \<Longrightarrow> q \<in> set qs \<Longrightarrow>
   \<exists>st st'. state w q = Some st \<and> state w' q = Some st' \<and> step_st st' = Suc (step_st st)"
proof (induction qs arbitrary: w)
  case Nil
  then show ?case by simp
next
  case (Cons q0 qs)
  obtain u1 w1 where a: "step_at g q0 w = (Inr u1, w1)" and b: "step_params g qs w1 = (Inr u, w')"
    using Cons.prems(1) by (rule step_params_Cons_Inr)
  have k: "kept w w1" by (rule step_at_kept [OF a])
  show ?case
  proof (cases "q = q0")
    case True
    have "q0 \<notin> set qs" using Cons.prems(2) by simp
    then have "state w' q0 = state w1 q0" using step_params_other [OF b] by simp
    moreover have "grad (tensors w q0) \<noteq> None" using Cons.prems(3) by simp
    ultimately show ?thesis using step_at_count [OF a] True by simp
  next
    case False
    then have q: "q \<in> set qs" using Cons.prems(4) by simp
    have "\<forall>q\<in>set qs. grad (tensors w1 q) \<noteq> None"
      using Cons.prems(3) k by (simp add: kept_def)
    then have "\<exists>st st'. state w1 q = Some st \<and> state w' q = Some st' \<and> step_st st' = Suc (step_st st)"
      using Cons.IH [OF b] Cons.prems(2) q by simp
    then show ?thesis using step_at_other(1) [OF a False] by simp
  qed
qed

lemma step_groups_Cons_Inr:
  assumes "step_groups (g # gs) w = (Inr u, w'')"
  obtains u1 w' where "step_params g (params g) w = (Inr u1, w')"
    and "step_groups gs w' = (Inr u, w'')"
  using assms by (auto split: prod.splits sum.splits)

lemma step_groups_kept:
  "step_groups gs w = (r, w') \<Longrightarrow> kept w w'"
proof (induction gs arbitrary: w)
  case Nil
  then show ?case by (simp add: kept_refl)
next
  case (Cons g gs)
  obtain r1 w1 where a: "step_params g (params g) w = (r1, w1)"
    by (cases "step_params g (params g) w")
  show ?case
  proof (cases r1)
    case (Inl e)
    then show ?thesis using Cons.prems a step_params_kept [OF a] by simp
  next
    case (Inr u1)
    then have "step_groups gs w1 = (r, w')" using Cons.prems a by simp
    then show ?thesis using Cons.IH step_params_kept [OF a] kept_trans by blast
  qed
qed

lemma step_groups_other:
  "step_groups gs w = (r, w') \<Longrightarrow> q' \<notin> set (concat (map params gs)) \<Longrightarrow>
   state w' q' = state w q' \<and> tensors w' q' = tensors w q'"
proof (induction gs arbitrary: w)
  case Nil
  then show ?case by simp
next
  case (Cons g gs)
  obtain r1 w1 where a: "step_params g (params g) w = (r1, w1)"
    by (cases "step_params g (params g) w")
  have n1: "q' \<notin> set (params g)" and n2: "q' \<notin> set (concat (map params gs))"
    using Cons.prems(2) by auto
  show ?case
  proof (cases r1)
    case (Inl e)
    then show ?thesis using Cons.prems(1) a step_params_other [OF a n1] by simp
  next
    case (Inr u1)
    then have "step_groups gs w1 = (r, w')" using Cons.prems(1) a by simp
    then show ?thesis using Cons.IH n2 step_params_other [OF a n1] by simp
  qed
qed

lemma step_groups_count:
  "step_groups gs w = (Inr u, w') \<Longrightarrow> distinct (concat (map params gs)) \<Longrightarrow>
   \<forall>q\<in>set (concat (map params gs)). grad (tensors w q) \<noteq> None \<Longrightarrow>
   q \<in> set (concat (map params gs)) \<Longrightarrow>
   \<exists>st st'. state w q = Some st \<and> state w' q = Some st' \<and> step_st st' = Suc (step_st st)"
proof (induction gs arbitrary: w)
  case Nil
  then show ?case by simp
next
  case (Cons g gs)
  obtain u1 w1 where a: "step_params g (params g) w = (Inr u1, w1)"
    and b: "step_groups gs w1 = (Inr u, w')"
    using Cons.prems(1) by (rule step_groups_Cons_Inr)
  have k: "kept w w1" by (rule step_params_kept [OF a])
  have d1: "distinct (params g)" and d2: "distinct (concat (map params gs))"
    and dj: "set (params g) \<inter> set (concat (map params gs)) = {}"
    using Cons.prems(2) by auto
  show ?case
  proof (cases "q \<in> set (params g)")
    case True
    then have "q \<notin> set (concat (map params gs))" using dj by auto
    then have "state w' q = state w1 q" using step_groups_other [OF b] by simp
    moreover have "\<forall>q\<in>set (params g). grad (tensors w q) \<noteq> None" using Cons.prems(3) by simp
    ultimately show ?thesis using step_params_count [OF a d1 _ True] by simp
  next
    case False
    then have q: "q \<in> set (concat (map params gs))" using Cons.prems(4) by simp
    have "\<forall>q\<in>set (concat (map params gs)). grad (tensors w1 q) \<noteq> None"
      using Cons.prems(3) k by (simp add: kept_def)
    then have "\<exists>st st'. state w1 q = Some st \<and> state w' q = Some st' \<and> step_st st' = Suc (step_st st)"
      using Cons.IH [OF b d2 _ q] by simp
    then show ?thesis using step_params_other [OF a False] by simp
  qed
qed


section \<open>\<open>reset\<close> and \<open>get_step\<close>\<close>

lemma fold_reset_param_state:
  "state (fold reset_param qs w) q =
     (if q \<in> set qs then Some (fresh_state (length (data (tensors w q)))) else state w q)"
proof (induction qs arbitrary: w)
  case Nil
  then show ?case by simp
next
  case (Cons q0 qs)
  have t: "tensors (reset_param q0 w) = tensors w" by (simp add: reset_param_def)
  show ?case by (simp add: Cons.IH t) (simp add: reset_param_def)
qed

lemma fold_reset_groups_state:
  "state (fold (\<lambda>g w'. fold reset_param (params g) w') gs w) q =
     (if q \<in> set (concat (map params gs))
      then Some (fresh_state (length (data (tensors w q)))) else state w q)"
proof (induction gs arbitrary: w)
  case Nil
  then show ?case by simp
next
  case (Cons g gs)
  show ?case
    by (simp add: Cons.IH fold_reset_param_state fold_reset_param_flags)
qed

lemma reset_state:
  "state (reset w) q =
     (if q \<in> set (all_params w) then Some (fresh_state (length (data (tensors w q))))
      else state w q)"
  by (simp add: reset_def all_params_def fold_reset_groups_state)

lemma all_params_reset: "all_params (reset w) = all_params w"
  by (simp add: all_params_def reset_frame)

lemma get_step_params_None:
  "(get_step_params s qs = None) = (\<forall>q\<in>set qs. s q = None)"
  by (induction qs) (auto split: option.splits)

lemma get_step_params_Some:
  "get_step_params s qs = Some n \<Longrightarrow> \<exists>q\<in>set qs. \<exists>st. s q = Some st \<and> step_st st = n"
  by (induction qs) (auto split: option.splits)

lemma get_step_groups_None:
  "(get_step_groups s gs = None) = (\<forall>q\<in>set (concat (map params gs)). s q = None)"
proof (induction gs)
  case Nil
  then show ?case by simp
next
  case (Cons g gs)
  show ?case
  proof (cases "get_step_params s (params g)")
    case None
    then have "\<forall>q\<in>set (params g). s q = None" by (simp add: get_step_params_None)
    then show ?thesis using None Cons.IH by auto
  next
    case (Some m)
    then show ?thesis using get_step_params_Some [OF Some] by auto
  qed
qed

lemma get_step_groups_Some:
  "get_step_groups s gs = Some n \<Longrightarrow>
   \<exists>q\<in>set (concat (map params gs)). \<exists>st. s q = Some st \<and> step_st st = n"
proof (induction gs)
  case Nil
  then show ?case by simp
next
  case (Cons g gs)
  show ?case
  proof (cases "get_step_params s (params g)")
    case None
    then show ?thesis using Cons by auto
  next
    case (Some m)
    then have "m = n" using Cons.prems by simp
    then show ?thesis using get_step_params_Some [OF Some] by auto
  qed
qed

lemma find_append_case:
  "find P (xs @ ys) = (case find P xs of None \<Rightarrow> find P ys | Some x \<Rightarrow> Some x)"
  by (induction xs) simp_all

lemma get_step_params_find:
  "get_step_params s qs =
     (case find (\<lambda>q. s q \<noteq> None) qs of None \<Rightarrow> None | Some q \<Rightarrow> map_option step_st (s q))"
  by (induction qs) (auto split: option.splits)

lemma get_step_groups_find:
  "get_step_groups s gs =
     (case find (\<lambda>q. s q \<noteq> None) (concat (map params gs)) of
        None \<Rightarrow> None
      | Some q \<Rightarrow> map_option step_st (s q))"
proof (induction gs)
  case Nil
  then show ?case by simp
next
  case (Cons g gs)
  show ?case
  proof (cases "find (\<lambda>q. s q \<noteq> None) (params g)")
    case None
    then show ?thesis
      using Cons.IH by (simp add: find_append_case get_step_params_find)
  next
    case (Some q)
    then have "s q \<noteq> None" by (auto simp: find_Some_iff)
    then show ?thesis
      using Some by (auto simp: find_append_case get_step_params_find)
  qed
qed

lemma get_step_find:
  "get_step w =
     (case find (\<lambda>q. state w q \<noteq> None) (all_params w) of
        None \<Rightarrow> None
      | Some q \<Rightarrow> map_option step_st (state w q))"
  by (simp add: get_step_def all_params_def get_step_groups_find)

lemma get_step_None: "(get_step w = None) = (\<forall>q\<in>set (all_params w). state w q = None)"
  by (simp add: get_step_def all_params_def get_step_groups_None)

lemma get_step_Some:
  "get_step w = Some n \<Longrightarrow> \<exists>q\<in>set (all_params w). \<exists>st. state w q = Some st \<and> step_st st = n"
  unfolding get_step_def all_params_def by (rule get_step_groups_Some)

lemma get_step_all:
  assumes "all_params w \<noteq> []"
    and "\<forall>q\<in>set (all_params w). \<exists>st. state w q = Some st \<and> step_st st = n"
  shows "get_step w = Some n"
proof (cases "get_step w")
  case None
  obtain q where "q \<in> set (all_params w)" using assms(1) by (cases "all_params w") auto
  then show ?thesis using None assms(2) get_step_None [of w] by auto
next
  case (Some m)
  then show ?thesis using get_step_Some [OF Some] assms(2) by auto
qed

lemma get_step_reset: "get_step (reset w) = (if all_params w = [] then None else Some 0)"
proof (cases "all_params w = []")
  case True
  then show ?thesis by (simp add: get_step_None all_params_reset)
next
  case False
  have "\<forall>q\<in>set (all_params (reset w)). \<exists>st. state (reset w) q = Some st \<and> step_st st = 0"
    by (simp add: all_params_reset reset_state fresh_state_def)
  then show ?thesis using False get_step_all [of "reset w" 0] by (simp add: all_params_reset)
qed

section \<open>Counting the calls of \<open>step\<close>\<close>

lemma step_None_Inr:
  assumes "step None w = (Inr l, w')"
  shows "l = None" and "\<exists>u. step_groups (param_groups w) w = (Inr u, w')"
  using assms by (auto simp: step_def split: prod.splits sum.splits)

lemma step_count:
  assumes "step None w = (Inr l, w')" and "distinct (all_params w)"
    and "\<forall>q\<in>set (all_params w). grad (tensors w q) \<noteq> None"
    and "\<forall>q\<in>set (all_params w). \<exists>st. state w q = Some st \<and> step_st st = n"
  shows "all_params w' = all_params w"
    and "\<forall>q\<in>set (all_params w). \<exists>st. state w' q = Some st \<and> step_st st = Suc n"
proof -
  obtain u where sg: "step_groups (param_groups w) w = (Inr u, w')"
    using step_None_Inr(2) [OF assms(1)] by blast
  show "all_params w' = all_params w"
    using step_groups_kept [OF sg] by (simp add: kept_def all_params_def)
  show "\<forall>q\<in>set (all_params w). \<exists>st. state w' q = Some st \<and> step_st st = Suc n"
  proof
    fix q assume q: "q \<in> set (all_params w)"
    then obtain st st' where "state w q = Some st" "state w' q = Some st'"
      "step_st st' = Suc (step_st st)"
      using step_groups_count [OF sg] assms(2,3) unfolding all_params_def by blast
    then show "\<exists>st. state w' q = Some st \<and> step_st st = Suc n"
      using assms(4) q by auto
  qed
qed

lemma run_steps_count:
  "run_steps gss w = (Inr u, w') \<Longrightarrow> distinct (all_params w) \<Longrightarrow>
   \<forall>gs\<in>set gss. \<forall>q\<in>set (all_params w). gs q \<noteq> None \<Longrightarrow>
   \<forall>q\<in>set (all_params w). \<exists>st. state w q = Some st \<and> step_st st = n \<Longrightarrow>
   all_params w' = all_params w \<and>
   (\<forall>q\<in>set (all_params w). \<exists>st. state w' q = Some st \<and> step_st st = n + length gss)"
proof (induction gss arbitrary: w n)
  case Nil
  then show ?case by simp
next
  case (Cons gs gss)
  let ?w0 = "set_grads gs w"
  have ap: "all_params ?w0 = all_params w" by (simp add: all_params_def set_grads_def)
  obtain l w1 where a: "step (None :: (world \<Rightarrow> (error + unit) \<times> world) option) ?w0 = (Inr l, w1)"
    and b: "run_steps gss w1 = (Inr u, w')"
    using Cons.prems(1) by (auto split: prod.splits sum.splits)
  have g: "\<forall>q\<in>set (all_params ?w0). grad (tensors ?w0 q) \<noteq> None"
    using Cons.prems(3) by (simp add: ap) (simp add: set_grads_def)
  have s: "\<forall>q\<in>set (all_params ?w0). \<exists>st. state ?w0 q = Some st \<and> step_st st = n"
    using Cons.prems(4) by (simp add: ap) (simp add: set_grads_def)
  have d: "distinct (all_params ?w0)" using Cons.prems(2) by (simp add: ap)
  have ap1: "all_params w1 = all_params w" using step_count(1) [OF a d g s] ap by simp
  have s1: "\<forall>q\<in>set (all_params w1). \<exists>st. state w1 q = Some st \<and> step_st st = Suc n"
    using step_count(2) [OF a d g s] ap ap1 by simp
  have "all_params w' = all_params w1 \<and>
        (\<forall>q\<in>set (all_params w1). \<exists>st. state w' q = Some st \<and> step_st st = Suc n + length gss)"
    using Cons.IH [OF b _ _ s1] Cons.prems(2,3) ap1 by simp
  then show ?case using ap1 by simp
qed

section \<open>The claim about \<open>get_step\<close>\<close>

text \<open>
  C7, as amended. \<open>get_step\<close> returns the step count of the first parameter, in the
  order of the groups and of the parameters in each group, that has state entries; it
  returns \<open>None\<close> exactly when no parameter the optimizer holds has state entries,
  which after \<open>reset\<close> (and so after the constructor) is the case only for an optimizer
  that holds no parameter. After \<open>reset\<close> an optimizer that holds a parameter returns
  0, not \<open>None\<close>. When the optimizer holds at least one parameter and none twice, then
  after \<open>N\<close> calls of \<open>step\<close> that return, each made with a gradient on every
  parameter, \<open>get_step\<close> returns \<open>N\<close>.
\<close>

theorem get_step_counts_steps:
  assumes "distinct (all_params w)" and "all_params w \<noteq> []"
    and "\<forall>gs\<in>set gss. \<forall>q\<in>set (all_params w). gs q \<noteq> None"
    and "run_steps gss (reset w) = (Inr (), w')"
  shows "get_step w' = Some (length gss) \<and>
         get_step (reset w) = Some 0 \<and>
         get_step v =
           (case find (\<lambda>q. state v q \<noteq> None) (all_params v) of
              None \<Rightarrow> None
            | Some q \<Rightarrow> map_option step_st (state v q)) \<and>
         (get_step v = None) = (\<forall>q\<in>set (all_params v). state v q = None) \<and>
         (\<forall>n. get_step v = Some n \<longrightarrow>
            (\<exists>q\<in>set (all_params v). \<exists>st. state v q = Some st \<and> step_st st = n)) \<and>
         get_step (reset v) = (if all_params v = [] then None else Some 0)"
proof -
  have s0: "\<forall>q\<in>set (all_params (reset w)). \<exists>st. state (reset w) q = Some st \<and> step_st st = 0"
    by (simp add: all_params_reset reset_state fresh_state_def)
  have "all_params w' = all_params (reset w) \<and>
        (\<forall>q\<in>set (all_params (reset w)). \<exists>st. state w' q = Some st \<and> step_st st = 0 + length gss)"
    using run_steps_count [OF assms(4) _ _ s0] assms(1,3) by (simp add: all_params_reset)
  then have 1: "get_step w' = Some (length gss)"
    using get_step_all [of w' "length gss"] assms(2) by (simp add: all_params_reset)
  have 2: "get_step (reset w) = Some 0" using assms(2) by (simp add: get_step_reset)
  show ?thesis
    using 1 2 get_step_find [of v] get_step_None [of v] get_step_Some [of v] get_step_reset [of v]
    by blast
qed

text \<open>
  The optimizer the constructor gives for one parameter, before any call of \<open>step\<close>:
  \<open>get_step\<close> returns 0, not \<open>None\<close>. An optimizer whose only group holds no
  parameter returns \<open>None\<close> after one call of \<open>step\<close>, and one that holds the same
  parameter twice returns 2.
\<close>

theorem get_step_counterexample:
  "adagrad_init [0] None None None None None None (\<lambda>q. \<lparr>psize = [1], data = [0], grad = None\<rparr>) =
     Inr (adagrad_world [0] None None None None None None
            (\<lambda>q. \<lparr>psize = [1], data = [0], grad = None\<rparr>)) \<and>
   get_step (adagrad_world [0] None None None None None None
      (\<lambda>q. \<lparr>psize = [1], data = [0], grad = None\<rparr>)) = Some 0 \<and>
   fst (run_steps [\<lambda>q. Some (Dense [1])]
     (reset \<lparr>param_groups = [\<lparr>params = [], lr = 1, lr_decay = 0, weight_decay = 0, l1_C = 0\<rparr>],
             state = (\<lambda>q. None), no_bias_l1 = True, no_non_singleton_l1 = True,
             tensors = (\<lambda>q. \<lparr>psize = [1], data = [0], grad = None\<rparr>)\<rparr>)) = Inr () \<and>
   get_step (snd (run_steps [\<lambda>q. Some (Dense [1])]
     (reset \<lparr>param_groups = [\<lparr>params = [], lr = 1, lr_decay = 0, weight_decay = 0, l1_C = 0\<rparr>],
             state = (\<lambda>q. None), no_bias_l1 = True, no_non_singleton_l1 = True,
             tensors = (\<lambda>q. \<lparr>psize = [1], data = [0], grad = None\<rparr>)\<rparr>))) = None \<and>
   fst (run_steps [\<lambda>q. Some (Dense [1])]
     (adagrad_world [0, 0] None None None None None None
        (\<lambda>q. \<lparr>psize = [1], data = [0], grad = None\<rparr>))) = Inr () \<and>
   get_step (snd (run_steps [\<lambda>q. Some (Dense [1])]
     (adagrad_world [0, 0] None None None None None None
        (\<lambda>q. \<lparr>psize = [1], data = [0], grad = None\<rparr>)))) = Some 2"
  by (simp add: adagrad_init_def adagrad_world_def reset_def reset_param_def fresh_state_def
      default_arg_def get_step_def set_grads_def step_def step_at_def step_param_def l1_cond_def
      dense_update_def Let_def)

theorem get_step_counts_steps_witness:
  "fst (run_steps [\<lambda>q. Some (Dense [1]), \<lambda>q. Some (Dense [2])]
     (reset \<lparr>param_groups = [\<lparr>params = [0, 1], lr = 1, lr_decay = 0, weight_decay = 0, l1_C = 0\<rparr>],
             state = (\<lambda>q. None), no_bias_l1 = True, no_non_singleton_l1 = True,
             tensors = (\<lambda>q. \<lparr>psize = [1], data = [0], grad = None\<rparr>)\<rparr>)) = Inr () \<and>
   get_step (snd (run_steps [\<lambda>q. Some (Dense [1]), \<lambda>q. Some (Dense [2])]
     (reset \<lparr>param_groups = [\<lparr>params = [0, 1], lr = 1, lr_decay = 0, weight_decay = 0, l1_C = 0\<rparr>],
             state = (\<lambda>q. None), no_bias_l1 = True, no_non_singleton_l1 = True,
             tensors = (\<lambda>q. \<lparr>psize = [1], data = [0], grad = None\<rparr>)\<rparr>))) = Some 2 \<and>
   get_step \<lparr>param_groups = [\<lparr>params = [0, 1, 2], lr = 1, lr_decay = 0, weight_decay = 0, l1_C = 0\<rparr>],
             state = (\<lambda>q. if q = 0 then None
                          else Some ((fresh_state 1)\<lparr>step_st := q\<rparr>)),
             no_bias_l1 = True, no_non_singleton_l1 = True,
             tensors = (\<lambda>q. \<lparr>psize = [1], data = [0], grad = None\<rparr>)\<rparr> = Some 1"
proof -
  let ?w = "\<lparr>param_groups = [\<lparr>params = [0, 1], lr = 1, lr_decay = 0, weight_decay = 0, l1_C = 0\<rparr>],
             state = (\<lambda>q. None), no_bias_l1 = True, no_non_singleton_l1 = True,
             tensors = (\<lambda>q. \<lparr>psize = [1], data = [0], grad = None\<rparr>)\<rparr>"
  let ?v = "\<lparr>param_groups = [\<lparr>params = [0, 1, 2], lr = 1, lr_decay = 0, weight_decay = 0, l1_C = 0\<rparr>],
             state = (\<lambda>q. if q = 0 then None
                          else Some ((fresh_state 1)\<lparr>step_st := q\<rparr>)),
             no_bias_l1 = True, no_non_singleton_l1 = True,
             tensors = (\<lambda>q. \<lparr>psize = [1], data = [0], grad = None\<rparr>)\<rparr>"
  let ?gss = "[\<lambda>q. Some (Dense [1]), \<lambda>q :: pid. Some (Dense [2 :: real])]"
  have r: "fst (run_steps ?gss (reset ?w)) = Inr ()"
    by (simp add: reset_def reset_param_def fresh_state_def set_grads_def step_def step_at_def
        step_param_def l1_cond_def dense_update_def Let_def)
  then have h4: "run_steps ?gss (reset ?w) = (Inr (), snd (run_steps ?gss (reset ?w)))"
    by (simp add: prod_eq_iff)
  have h1: "distinct (all_params ?w)" by (simp add: all_params_def)
  have h2: "all_params ?w \<noteq> []" by (simp add: all_params_def)
  have h3: "\<forall>gs\<in>set ?gss. \<forall>q\<in>set (all_params ?w). gs q \<noteq> None" by simp
  note t = get_step_counts_steps [OF h1 h2 h3 h4, of ?v]
  have a: "get_step (snd (run_steps ?gss (reset ?w))) = Some (length ?gss)"
    using t by blast
  have "get_step ?v =
           (case find (\<lambda>q. state ?v q \<noteq> None) (all_params ?v) of
              None \<Rightarrow> None
            | Some q \<Rightarrow> map_option step_st (state ?v q))"
    using t by blast
  then have b: "get_step ?v = Some 1" by (simp add: all_params_def)
  show ?thesis using r a b by simp
qed

section \<open>Weight decay\<close>

lemma sparse_weight_decay_raises:
  assumes "grad p = Some gr" and "is_sparse gr" and "weight_decay g \<noteq> 0"
  shows "step_param nb nns g p (Some st0) =
           (Inl SparseWeightDecay, p, Some (st0\<lparr>step_st := step_st st0 + 1\<rparr>))"
  using assms by (simp add: step_param_def)

lemma dense_weight_decay:
  assumes "grad p = Some (Dense gd)" and "weight_decay g \<noteq> 0"
  shows "step_param nb nns g p (Some st0) =
     (let st = st0\<lparr>step_st := step_st st0 + 1\<rparr>;
          gw = map2 (\<lambda>x d. x + weight_decay g * d) gd (data p);
          den = 1 + (real (step_st st) - 1) * lr_decay g
      in if den = 0 then (Inl ZeroDivisionError, p, Some st)
         else
           (case l1_cond nb nns (l1_C g) (psize p) of
              Inl e \<Rightarrow> (Inl e, p, Some st)
            | Inr True \<Rightarrow>
                (Inr (), fst (l1_update (lr g / den) (l1_C g) gw p st),
                 Some (snd (l1_update (lr g / den) (l1_C g) gw p st)))
            | Inr False \<Rightarrow>
                (Inr (), fst (dense_update (lr g / den) gw p st),
                 Some (snd (dense_update (lr g / den) gw p st)))))"
  using assms
  by (simp add: step_param_unfold Let_def is_sparse_def to_dense_def
      split: sum.splits bool.splits)

lemma dense_weight_decay_entries:
  assumes "grad p = Some (Dense gd)" and "weight_decay g \<noteq> 0"
    and "l1_cond nb nns (l1_C g) (psize p) = Inr False"
    and "1 + (real (step_st st0 + 1) - 1) * lr_decay g \<noteq> 0"
    and "length gd = length (data p)" and "length (sum_st st0) = length (data p)"
  shows "\<exists>p' st'.
           step_param nb nns g p (Some st0) = (Inr (), p', Some st') \<and>
           (\<forall>i<length (data p).
              sum_st st' ! i =
                sum_st st0 ! i +
                (gd ! i + weight_decay g * data p ! i) * (gd ! i + weight_decay g * data p ! i) \<and>
              data p' ! i =
                data p ! i -
                lr g / (1 + (real (step_st st0 + 1) - 1) * lr_decay g) *
                  ((gd ! i + weight_decay g * data p ! i) / (sqrt (sum_st st' ! i) + eps)))"
proof -
  let ?st = "st0\<lparr>step_st := step_st st0 + 1\<rparr>"
  let ?gw = "map2 (\<lambda>x d. x + weight_decay g * d) gd (data p)"
  let ?clr = "lr g / (1 + (real (step_st ?st) - 1) * lr_decay g)"
  let ?U = "dense_update ?clr ?gw p ?st"
  have 1: "step_param nb nns g p (Some st0) = (Inr (), fst ?U, Some (snd ?U))"
    using dense_weight_decay [OF assms(1,2), of nb nns st0] assms(3,4) by (simp add: Let_def)
  have lg: "length ?gw = length (data p)" using assms(5) by simp
  have ls: "length (sum_st ?st) = length (data p)" using assms(6) by simp
  have 2: "\<forall>i<length (data p).
              sum_st (snd ?U) ! i =
                sum_st st0 ! i +
                (gd ! i + weight_decay g * data p ! i) * (gd ! i + weight_decay g * data p ! i) \<and>
              data (fst ?U) ! i =
                data p ! i -
                lr g / (1 + (real (step_st st0 + 1) - 1) * lr_decay g) *
                  ((gd ! i + weight_decay g * data p ! i) / (sqrt (sum_st (snd ?U) ! i) + eps))"
  proof (intro allI impI)
    fix i assume i: "i < length (data p)"
    show "sum_st (snd ?U) ! i =
                sum_st st0 ! i +
                (gd ! i + weight_decay g * data p ! i) * (gd ! i + weight_decay g * data p ! i) \<and>
              data (fst ?U) ! i =
                data p ! i -
                lr g / (1 + (real (step_st st0 + 1) - 1) * lr_decay g) *
                  ((gd ! i + weight_decay g * data p ! i) / (sqrt (sum_st (snd ?U) ! i) + eps))"
      using dense_update_nth [OF i lg ls, of ?clr] i assms(5) by simp
  qed
  show ?thesis using 1 2 by blast
qed

lemma step_at_result:
  assumes "psize (tensors w q) \<noteq> []" and "0 \<le> lr_decay g" and "state w q \<noteq> None"
    and "\<forall>gr. grad (tensors w q) = Some gr \<and> is_sparse gr \<and> weight_decay g = 0 \<longrightarrow>
           l1_cond (no_bias_l1 w) (no_non_singleton_l1 w) (l1_C g) (psize (tensors w q)) = Inr False"
  shows "fst (step_at g q w) =
     (case grad (tensors w q) of
        None \<Rightarrow> Inr ()
      | Some gr \<Rightarrow> if weight_decay g \<noteq> 0 \<and> is_sparse gr then Inl SparseWeightDecay else Inr ())"
  using step_param_errors [OF assms(1-3), of "no_bias_l1 w" "no_non_singleton_l1 w"] assms(4)
  by (auto simp: step_at_def case_prod_beta split: option.splits)

lemma step_params_result:
  "0 \<le> lr_decay g \<Longrightarrow>
   \<forall>q\<in>set qs. psize (tensors w q) \<noteq> [] \<and> state w q \<noteq> None \<and>
      (\<forall>gr. grad (tensors w q) = Some gr \<and> is_sparse gr \<and> weight_decay g = 0 \<longrightarrow>
         l1_cond (no_bias_l1 w) (no_non_singleton_l1 w) (l1_C g) (psize (tensors w q)) = Inr False) \<Longrightarrow>
   fst (step_params g qs w) =
     (if weight_decay g \<noteq> 0 \<and> (\<exists>q\<in>set qs. \<exists>gr. grad (tensors w q) = Some gr \<and> is_sparse gr)
      then Inl SparseWeightDecay else Inr ())"
proof (induction qs arbitrary: w)
  case Nil
  then show ?case by simp
next
  case (Cons q qs)
  obtain r1 w1 where a: "step_at g q w = (r1, w1)" by (cases "step_at g q w")
  have k: "kept w w1" by (rule step_at_kept [OF a])
  have r1: "r1 = (case grad (tensors w q) of
        None \<Rightarrow> Inr ()
      | Some gr \<Rightarrow> if weight_decay g \<noteq> 0 \<and> is_sparse gr then Inl SparseWeightDecay else Inr ())"
    using step_at_result [of w q g] Cons.prems a by simp
  show ?case
  proof (cases r1)
    case (Inl e)
    then have "e = SparseWeightDecay \<and> weight_decay g \<noteq> 0 \<and>
               (\<exists>gr. grad (tensors w q) = Some gr \<and> is_sparse gr)"
      using r1 by (auto split: option.splits if_splits)
    then show ?thesis using a Inl by auto
  next
    case (Inr u)
    then have nq: "\<not> (weight_decay g \<noteq> 0 \<and> (\<exists>gr. grad (tensors w q) = Some gr \<and> is_sparse gr))"
      using r1 by (auto split: option.splits if_splits)
    have wf1: "\<forall>q\<in>set qs. psize (tensors w1 q) \<noteq> [] \<and> state w1 q \<noteq> None \<and>
      (\<forall>gr. grad (tensors w1 q) = Some gr \<and> is_sparse gr \<and> weight_decay g = 0 \<longrightarrow>
         l1_cond (no_bias_l1 w1) (no_non_singleton_l1 w1) (l1_C g) (psize (tensors w1 q)) = Inr False)"
      using Cons.prems(2) k by (simp add: kept_def)
    have "fst (step_params g qs w1) =
       (if weight_decay g \<noteq> 0 \<and> (\<exists>q\<in>set qs. \<exists>gr. grad (tensors w1 q) = Some gr \<and> is_sparse gr)
        then Inl SparseWeightDecay else Inr ())"
      by (rule Cons.IH [OF Cons.prems(1) wf1])
    moreover have "\<And>q. grad (tensors w1 q) = grad (tensors w q)" using k by (simp add: kept_def)
    ultimately show ?thesis using a Inr nq by auto
  qed
qed

lemma step_groups_result:
  "\<forall>g\<in>set gs. 0 \<le> lr_decay g \<and>
      (\<forall>q\<in>set (params g). psize (tensors w q) \<noteq> [] \<and> state w q \<noteq> None \<and>
         (\<forall>gr. grad (tensors w q) = Some gr \<and> is_sparse gr \<and> weight_decay g = 0 \<longrightarrow>
            l1_cond (no_bias_l1 w) (no_non_singleton_l1 w) (l1_C g) (psize (tensors w q)) =
              Inr False)) \<Longrightarrow>
   fst (step_groups gs w) =
     (if \<exists>g\<in>set gs. weight_decay g \<noteq> 0 \<and>
           (\<exists>q\<in>set (params g). \<exists>gr. grad (tensors w q) = Some gr \<and> is_sparse gr)
      then Inl SparseWeightDecay else Inr ())"
proof (induction gs arbitrary: w)
  case Nil
  then show ?case by simp
next
  case (Cons g gs)
  obtain r1 w1 where a: "step_params g (params g) w = (r1, w1)"
    by (cases "step_params g (params g) w")
  have k: "kept w w1" by (rule step_params_kept [OF a])
  have r1: "r1 =
     (if weight_decay g \<noteq> 0 \<and>
         (\<exists>q\<in>set (params g). \<exists>gr. grad (tensors w q) = Some gr \<and> is_sparse gr)
      then Inl SparseWeightDecay else Inr ())"
    using step_params_result [of g "params g" w] Cons.prems a by simp
  show ?case
  proof (cases r1)
    case (Inl e)
    then have "e = SparseWeightDecay \<and> weight_decay g \<noteq> 0 \<and>
         (\<exists>q\<in>set (params g). \<exists>gr. grad (tensors w q) = Some gr \<and> is_sparse gr)"
      using r1 by (auto split: if_splits)
    then show ?thesis using a Inl by auto
  next
    case (Inr u)
    then have ng: "\<not> (weight_decay g \<noteq> 0 \<and>
         (\<exists>q\<in>set (params g). \<exists>gr. grad (tensors w q) = Some gr \<and> is_sparse gr))"
      using r1 by (auto split: if_splits)
    have wf1: "\<forall>g\<in>set gs. 0 \<le> lr_decay g \<and>
      (\<forall>q\<in>set (params g). psize (tensors w1 q) \<noteq> [] \<and> state w1 q \<noteq> None \<and>
         (\<forall>gr. grad (tensors w1 q) = Some gr \<and> is_sparse gr \<and> weight_decay g = 0 \<longrightarrow>
            l1_cond (no_bias_l1 w1) (no_non_singleton_l1 w1) (l1_C g) (psize (tensors w1 q)) =
              Inr False))"
      using Cons.prems k by (simp add: kept_def)
    have "fst (step_groups gs w1) =
     (if \<exists>g\<in>set gs. weight_decay g \<noteq> 0 \<and>
           (\<exists>q\<in>set (params g). \<exists>gr. grad (tensors w1 q) = Some gr \<and> is_sparse gr)
      then Inl SparseWeightDecay else Inr ())"
      by (rule Cons.IH [OF wf1])
    moreover have "\<And>q. grad (tensors w1 q) = grad (tensors w q)" using k by (simp add: kept_def)
    ultimately show ?thesis using a Inr ng by auto
  qed
qed

lemma step_raises_sparse_weight_decay:
  assumes "\<forall>g\<in>set (param_groups w). 0 \<le> lr_decay g \<and>
      (\<forall>q\<in>set (params g). psize (tensors w q) \<noteq> [] \<and> state w q \<noteq> None \<and>
         (\<forall>gr. grad (tensors w q) = Some gr \<and> is_sparse gr \<and> weight_decay g = 0 \<longrightarrow>
            l1_cond (no_bias_l1 w) (no_non_singleton_l1 w) (l1_C g) (psize (tensors w q)) =
              Inr False))"
    and "g \<in> set (param_groups w)" and "q \<in> set (params g)" and "weight_decay g \<noteq> 0"
    and "grad (tensors w q) = Some gr" and "is_sparse gr"
  shows "fst (step None w) = Inl SparseWeightDecay"
proof -
  have "fst (step_groups (param_groups w) w) = Inl SparseWeightDecay"
    using step_groups_result [OF assms(1)] assms(2-6) by auto
  then show ?thesis by (auto simp: step_def split: prod.splits sum.splits)
qed

text \<open>
  C5. For a parameter with a gradient in a group whose \<open>weight_decay\<close> is not zero.
  If the gradient is sparse and the parameter has state entries, the loop body raises
  the error of line 79 (after it has counted the step); and \<open>step\<close> as a whole ends
  with this error when the optimizer holds such a parameter and no other error can come
  first (every parameter it holds has state entries and a shape of rank at least one,
  no group has a negative \<open>lr_decay\<close>, and no sparse gradient without weight decay is
  on the L1 update). If the gradient is a dense \<open>gd\<close>, the body makes the L1 or the
  dense update, whichever line 83 selects, with \<open>gd + weight_decay * p.data\<close> in the
  place of the gradient; on the dense update every entry of \<open>sum\<close> grows by the square
  of that sum, and every entry of the parameter loses \<open>clr\<close> times that sum over
  \<open>sqrt(sum) + 1e-10\<close>.
\<close>

theorem weight_decay_step:
  assumes "weight_decay g \<noteq> 0" and "grad p = Some gr"
  shows "(is_sparse gr \<longrightarrow>
            step_param nb nns g p (Some st) =
              (Inl SparseWeightDecay, p, Some (st\<lparr>step_st := step_st st + 1\<rparr>))) \<and>
         (is_sparse gr \<and> tensors w q = p \<and> g \<in> set (param_groups w) \<and> q \<in> set (params g) \<and>
          (\<forall>g'\<in>set (param_groups w). 0 \<le> lr_decay g' \<and>
             (\<forall>q'\<in>set (params g'). psize (tensors w q') \<noteq> [] \<and> state w q' \<noteq> None \<and>
                (\<forall>gr'. grad (tensors w q') = Some gr' \<and> is_sparse gr' \<and> weight_decay g' = 0 \<longrightarrow>
                   l1_cond (no_bias_l1 w) (no_non_singleton_l1 w) (l1_C g') (psize (tensors w q')) =
                     Inr False))) \<longrightarrow>
            fst (step None w) = Inl SparseWeightDecay) \<and>
         (\<forall>gd. gr = Dense gd \<longrightarrow>
            step_param nb nns g p (Some st) =
              (let st1 = st\<lparr>step_st := step_st st + 1\<rparr>;
                   gw = map2 (\<lambda>x d. x + weight_decay g * d) gd (data p);
                   den = 1 + (real (step_st st1) - 1) * lr_decay g
               in if den = 0 then (Inl ZeroDivisionError, p, Some st1)
                  else
                    (case l1_cond nb nns (l1_C g) (psize p) of
                       Inl e \<Rightarrow> (Inl e, p, Some st1)
                     | Inr True \<Rightarrow>
                         (Inr (), fst (l1_update (lr g / den) (l1_C g) gw p st1),
                          Some (snd (l1_update (lr g / den) (l1_C g) gw p st1)))
                     | Inr False \<Rightarrow>
                         (Inr (), fst (dense_update (lr g / den) gw p st1),
                          Some (snd (dense_update (lr g / den) gw p st1)))))) \<and>
         (\<forall>gd. gr = Dense gd \<and> l1_cond nb nns (l1_C g) (psize p) = Inr False \<and>
               1 + (real (step_st st + 1) - 1) * lr_decay g \<noteq> 0 \<and>
               length gd = length (data p) \<and> length (sum_st st) = length (data p) \<longrightarrow>
            (\<exists>p' st'.
               step_param nb nns g p (Some st) = (Inr (), p', Some st') \<and>
               (\<forall>i<length (data p).
                  sum_st st' ! i =
                    sum_st st ! i +
                    (gd ! i + weight_decay g * data p ! i) * (gd ! i + weight_decay g * data p ! i) \<and>
                  data p' ! i =
                    data p ! i -
                    lr g / (1 + (real (step_st st + 1) - 1) * lr_decay g) *
                      ((gd ! i + weight_decay g * data p ! i) / (sqrt (sum_st st' ! i) + eps)))))"
proof (intro conjI impI allI)
  assume "is_sparse gr"
  then show "step_param nb nns g p (Some st) =
              (Inl SparseWeightDecay, p, Some (st\<lparr>step_st := step_st st + 1\<rparr>))"
    using assms by (simp add: sparse_weight_decay_raises)
next
  assume a: "is_sparse gr \<and> tensors w q = p \<and> g \<in> set (param_groups w) \<and> q \<in> set (params g) \<and>
          (\<forall>g'\<in>set (param_groups w). 0 \<le> lr_decay g' \<and>
             (\<forall>q'\<in>set (params g'). psize (tensors w q') \<noteq> [] \<and> state w q' \<noteq> None \<and>
                (\<forall>gr'. grad (tensors w q') = Some gr' \<and> is_sparse gr' \<and> weight_decay g' = 0 \<longrightarrow>
                   l1_cond (no_bias_l1 w) (no_non_singleton_l1 w) (l1_C g') (psize (tensors w q')) =
                     Inr False)))"
  then have "grad (tensors w q) = Some gr" using assms(2) by simp
  then show "fst (step None w) = Inl SparseWeightDecay"
    using step_raises_sparse_weight_decay [of w g q gr] a assms(1) by blast
next
  fix gd assume "gr = Dense gd"
  then have "grad p = Some (Dense gd)" using assms(2) by simp
  then show "step_param nb nns g p (Some st) =
              (let st1 = st\<lparr>step_st := step_st st + 1\<rparr>;
                   gw = map2 (\<lambda>x d. x + weight_decay g * d) gd (data p);
                   den = 1 + (real (step_st st1) - 1) * lr_decay g
               in if den = 0 then (Inl ZeroDivisionError, p, Some st1)
                  else
                    (case l1_cond nb nns (l1_C g) (psize p) of
                       Inl e \<Rightarrow> (Inl e, p, Some st1)
                     | Inr True \<Rightarrow>
                         (Inr (), fst (l1_update (lr g / den) (l1_C g) gw p st1),
                          Some (snd (l1_update (lr g / den) (l1_C g) gw p st1)))
                     | Inr False \<Rightarrow>
                         (Inr (), fst (dense_update (lr g / den) gw p st1),
                          Some (snd (dense_update (lr g / den) gw p st1)))))"
    by (rule dense_weight_decay [OF _ assms(1)])
next
  fix gd
  assume a: "gr = Dense gd \<and> l1_cond nb nns (l1_C g) (psize p) = Inr False \<and>
               1 + (real (step_st st + 1) - 1) * lr_decay g \<noteq> 0 \<and>
               length gd = length (data p) \<and> length (sum_st st) = length (data p)"
  then have "grad p = Some (Dense gd)" using assms(2) by simp
  then show "\<exists>p' st'.
               step_param nb nns g p (Some st) = (Inr (), p', Some st') \<and>
               (\<forall>i<length (data p).
                  sum_st st' ! i =
                    sum_st st ! i +
                    (gd ! i + weight_decay g * data p ! i) * (gd ! i + weight_decay g * data p ! i) \<and>
                  data p' ! i =
                    data p ! i -
                    lr g / (1 + (real (step_st st + 1) - 1) * lr_decay g) *
                      ((gd ! i + weight_decay g * data p ! i) / (sqrt (sum_st st' ! i) + eps)))"
    using dense_weight_decay_entries [OF _ assms(1)] a by blast
qed

section \<open>Where the loops stop\<close>

lemma step_params_append:
  "step_params g (qs1 @ qs2) w =
     (case step_params g qs1 w of
        (Inl e, w') \<Rightarrow> (Inl e, w')
      | (Inr u, w') \<Rightarrow> step_params g qs2 w')"
  by (induction qs1 arbitrary: w) (auto split: prod.splits sum.splits)

lemma step_groups_append:
  "step_groups (gs1 @ gs2) w =
     (case step_groups gs1 w of
        (Inl e, w') \<Rightarrow> (Inl e, w')
      | (Inr u, w') \<Rightarrow> step_groups gs2 w')"
  by (induction gs1 arbitrary: w) (auto split: prod.splits sum.splits)

text \<open>
  C10. The error of line 79 does not undo anything. When the groups before \<open>g\<close> and
  the parameters of \<open>g\<close> before \<open>q\<close> have been stepped without an error, leaving the
  world \<open>w1\<close>, and \<open>q\<close> has a sparse gradient in a group with weight decay, then
  \<open>step\<close> ends with the error in the world \<open>w1\<close> with the step count of \<open>q\<close>
  raised by one: every earlier parameter keeps its finished update.
\<close>

theorem sparse_weight_decay_not_atomic:
  assumes "param_groups w = gs1 @ g # gs2" and "params g = qs1 @ q # qs2"
    and "step_groups gs1 w = (Inr (), w0)" and "step_params g qs1 w0 = (Inr (), w1)"
    and "grad (tensors w1 q) = Some gr" and "is_sparse gr" and "weight_decay g \<noteq> 0"
    and "state w1 q = Some st"
  shows "step None w =
           (Inl SparseWeightDecay, w1\<lparr>state := (state w1)(q \<mapsto> st\<lparr>step_st := step_st st + 1\<rparr>)\<rparr>)"
proof -
  have sp: "step_param (no_bias_l1 w1) (no_non_singleton_l1 w1) g (tensors w1 q) (Some st) =
              (Inl SparseWeightDecay, tensors w1 q, Some (st\<lparr>step_st := step_st st + 1\<rparr>))"
    using assms(5,6,7) by (rule sparse_weight_decay_raises)
  have at: "step_at g q w1 =
              (Inl SparseWeightDecay, w1\<lparr>state := (state w1)(q \<mapsto> st\<lparr>step_st := step_st st + 1\<rparr>)\<rparr>)"
    using sp assms(8) by (simp add: step_at_def)
  have "step_params g (params g) w0 =
          (Inl SparseWeightDecay, w1\<lparr>state := (state w1)(q \<mapsto> st\<lparr>step_st := step_st st + 1\<rparr>)\<rparr>)"
    using assms(2,4) at by (simp add: step_params_append)
  then have "step_groups (param_groups w) w =
          (Inl SparseWeightDecay, w1\<lparr>state := (state w1)(q \<mapsto> st\<lparr>step_st := step_st st + 1\<rparr>)\<rparr>)"
    using assms(1,3) by (simp add: step_groups_append)
  then show ?thesis by (simp add: step_def)
qed

section \<open>The closure\<close>

text \<open>
  C9. With a closure, \<open>step\<close> is the closure followed by \<open>step\<close> without a closure
  on the world the closure left: the closure runs once, on the world as it was when
  \<open>step\<close> was called, and before any update; what it returns is the result of
  \<open>step\<close>. When the closure raises, nothing is updated. Without a closure the result
  is \<open>None\<close>.
\<close>

theorem closure_called_once_first:
  "(c w = (Inr (l :: 'l), w1) \<longrightarrow>
      step (Some c) w =
        (case step (None :: (world \<Rightarrow> (error + 'l) \<times> world) option) w1 of
           (Inl e, w2) \<Rightarrow> (Inl e, w2)
         | (Inr r, w2) \<Rightarrow> (Inr (Some l), w2))) \<and>
   (c w = (Inl e, w1) \<longrightarrow> step (Some c) w = (Inl e, w1)) \<and>
   (step (None :: (world \<Rightarrow> (error + 'l) \<times> world) option) w = (Inr r, w') \<longrightarrow> r = None)"
  by (auto simp: step_def split: prod.splits sum.splits)

section \<open>The three claims on the example worlds\<close>

theorem weight_decay_step_witness:
  "step_param True True wd_group (tensors wd_world 1) (Some (fresh_state 1)) =
     (Inl SparseWeightDecay, tensors wd_world 1,
      Some ((fresh_state 1)\<lparr>step_st := step_st (fresh_state 1) + 1\<rparr>)) \<and>
   fst (step (None :: (world \<Rightarrow> (error + unit) \<times> world) option) wd_world) =
     Inl SparseWeightDecay \<and>
   (\<exists>p' st'.
      step_param True True wd_group wd_param (Some (fresh_state 1)) = (Inr (), p', Some st') \<and>
      sum_st st' ! 0 = 4 \<and> data p' ! 0 = 2 - 2 / (2 + eps))"
proof -
  have wd: "weight_decay wd_group \<noteq> 0" by (simp add: wd_group_def)
  have g1: "grad (tensors wd_world 1) = Some (Sparse [(0, 1)])" by (simp add: wd_world_def)
  have g0: "grad wd_param = Some (Dense [1])" by (simp add: wd_param_def)
  have sp: "is_sparse (Sparse [(0, 1)])" by (simp add: is_sparse_def)
  have wf: "is_sparse (Sparse [(0, 1)]) \<and> tensors wd_world 1 = tensors wd_world 1 \<and>
      wd_group \<in> set (param_groups wd_world) \<and> (1 :: pid) \<in> set (params wd_group) \<and>
      (\<forall>g'\<in>set (param_groups wd_world). 0 \<le> lr_decay g' \<and>
         (\<forall>q'\<in>set (params g'). psize (tensors wd_world q') \<noteq> [] \<and> state wd_world q' \<noteq> None \<and>
            (\<forall>gr'. grad (tensors wd_world q') = Some gr' \<and> is_sparse gr' \<and> weight_decay g' = 0 \<longrightarrow>
               l1_cond (no_bias_l1 wd_world) (no_non_singleton_l1 wd_world) (l1_C g')
                 (psize (tensors wd_world q')) = Inr False)))"
    by (simp add: wd_world_def wd_group_def is_sparse_def)
  note t1 = weight_decay_step [OF wd g1, where nb = True and nns = True and st = "fresh_state 1"
      and w = wd_world and q = 1]
  note t0 = weight_decay_step [OF wd g0, where nb = True and nns = True and st = "fresh_state 1"]
  have a: "step_param True True wd_group (tensors wd_world 1) (Some (fresh_state 1)) =
     (Inl SparseWeightDecay, tensors wd_world 1,
      Some ((fresh_state 1)\<lparr>step_st := step_st (fresh_state 1) + 1\<rparr>))"
    using t1 sp by blast
  have b: "fst (step (None :: (world \<Rightarrow> (error + unit) \<times> world) option) wd_world) =
     Inl SparseWeightDecay"
    using t1 wf by blast
  have h: "Dense [1] = Dense [1] \<and> l1_cond True True (l1_C wd_group) (psize wd_param) = Inr False \<and>
      1 + (real (step_st (fresh_state 1) + 1) - 1) * lr_decay wd_group \<noteq> 0 \<and>
      length [1 :: real] = length (data wd_param) \<and>
      length (sum_st (fresh_state 1)) = length (data wd_param)"
    by (simp add: wd_group_def wd_param_def l1_cond_def fresh_state_def)
  obtain p' st' where r:
    "step_param True True wd_group wd_param (Some (fresh_state 1)) = (Inr (), p', Some st')"
    "\<forall>i<length (data wd_param).
        sum_st st' ! i =
          sum_st (fresh_state 1) ! i +
          ([1] ! i + weight_decay wd_group * data wd_param ! i) *
          ([1] ! i + weight_decay wd_group * data wd_param ! i) \<and>
        data p' ! i =
          data wd_param ! i -
          lr wd_group / (1 + (real (step_st (fresh_state 1) + 1) - 1) * lr_decay wd_group) *
            (([1] ! i + weight_decay wd_group * data wd_param ! i) / (sqrt (sum_st st' ! i) + eps))"
    using t0 h by blast
  have i0: "0 < length (data wd_param)" by (simp add: wd_param_def)
  have s4: "sum_st st' ! 0 = 4"
    using r(2) [rule_format, OF i0] by (simp add: wd_group_def wd_param_def fresh_state_def)
  have d2: "data p' ! 0 = 2 - 2 / (2 + eps)"
    using r(2) [rule_format, OF i0] s4 by (simp add: wd_group_def wd_param_def fresh_state_def)
  show ?thesis using a b r(1) s4 d2 by blast
qed

theorem sparse_weight_decay_not_atomic_witness:
  "fst (step (None :: (world \<Rightarrow> (error + unit) \<times> world) option) wd_world) = Inl SparseWeightDecay \<and>
   map_option step_st (state wd_world 1) = Some 0 \<and>
   map_option step_st
     (state (snd (step (None :: (world \<Rightarrow> (error + unit) \<times> world) option) wd_world)) 1) = Some 1 \<and>
   data (tensors wd_world 0) = [0] \<and>
   data (tensors (snd (step (None :: (world \<Rightarrow> (error + unit) \<times> world) option) wd_world)) 0) =
     [- (1 / (1 + eps))] \<and>
   map_option sum_st
     (state (snd (step (None :: (world \<Rightarrow> (error + unit) \<times> world) option) wd_world)) 0) = Some [1]"
proof -
  let ?w1 = "snd (step_params wd_group [0] wd_world)"
  have w1: "step_params wd_group [0] wd_world =
      (Inr (), wd_world\<lparr>state := (state wd_world)(0 \<mapsto> \<lparr>step_st = 1, sum_st = [1], avg_st = [0], zeros_st = [0]\<rparr>),
                        tensors := (tensors wd_world)(0 := \<lparr>psize = [1], data = [- (1 / (1 + eps))], grad = Some (Dense [1])\<rparr>)\<rparr>)"
    by (simp add: wd_world_def wd_group_def step_at_def step_param_def is_sparse_def to_dense_def
        l1_cond_def dense_update_def fresh_state_def Let_def)
  have h1: "param_groups wd_world = [] @ wd_group # []" by (simp add: wd_world_def)
  have h2: "params wd_group = [0] @ 1 # []" by (simp add: wd_group_def)
  have h3: "step_groups [] wd_world = (Inr (), wd_world)" by simp
  have h4: "step_params wd_group [0] wd_world = (Inr (), ?w1)" by (simp only: w1 snd_conv)
  have h5: "grad (tensors ?w1 1) = Some (Sparse [(0, 1)])"
    by (simp only: w1 snd_conv) (simp add: wd_world_def)
  have h6: "is_sparse (Sparse [(0, 1)])" by (simp add: is_sparse_def)
  have h7: "weight_decay wd_group \<noteq> 0" by (simp add: wd_group_def)
  have h8: "state ?w1 1 = Some (fresh_state 1)"
    by (simp only: w1 snd_conv) (simp add: wd_world_def)
  have r: "step (None :: (world \<Rightarrow> (error + unit) \<times> world) option) wd_world =
      (Inl SparseWeightDecay,
       ?w1\<lparr>state := (state ?w1)(1 \<mapsto> (fresh_state 1)\<lparr>step_st := step_st (fresh_state 1) + 1\<rparr>)\<rparr>)"
    by (rule sparse_weight_decay_not_atomic [OF h1 h2 h3 h4 h5 h6 h7 h8])
  show ?thesis
    unfolding r by (simp only: w1 snd_conv fst_conv) (simp add: wd_world_def fresh_state_def)
qed

theorem closure_called_once_first_witness:
  "fst (step (Some loss_closure) plain_world) = Inr (Some 42) \<and>
   data (tensors (snd (step (Some loss_closure) plain_world)) 0) = [5 - 1 / (1 + eps)] \<and>
   fst (step (None :: (world \<Rightarrow> (error + int) \<times> world) option) plain_world) = Inr None \<and>
   data (tensors (snd (step (None :: (world \<Rightarrow> (error + int) \<times> world) option) plain_world)) 0) = [5]"
proof -
  let ?w1 = "set_grads (\<lambda>q. Some (Dense [1])) plain_world"
  have c: "loss_closure plain_world = (Inr 42, ?w1)" by (simp add: loss_closure_def)
  have s: "step (Some loss_closure) plain_world =
        (case step (None :: (world \<Rightarrow> (error + int) \<times> world) option) ?w1 of
           (Inl e, w2) \<Rightarrow> (Inl e, w2)
         | (Inr r, w2) \<Rightarrow> (Inr (Some 42), w2))"
    using closure_called_once_first [of loss_closure plain_world 42 ?w1] c by blast
  have n1: "fst (step (None :: (world \<Rightarrow> (error + int) \<times> world) option) ?w1) = Inr None \<and>
       data (tensors (snd (step (None :: (world \<Rightarrow> (error + int) \<times> world) option) ?w1)) 0) =
         [5 - 1 / (1 + eps)]"
    by (simp add: plain_world_def set_grads_def step_def step_at_def step_param_def l1_cond_def
        dense_update_def fresh_state_def Let_def)
  have n0: "fst (step (None :: (world \<Rightarrow> (error + int) \<times> world) option) plain_world) = Inr None \<and>
       data (tensors (snd (step (None :: (world \<Rightarrow> (error + int) \<times> world) option) plain_world)) 0) = [5]"
    by (simp add: plain_world_def step_def step_at_def step_param_def)
  obtain w2 where e: "step (None :: (world \<Rightarrow> (error + int) \<times> world) option) ?w1 = (Inr None, w2)"
    using n1 by (cases "step (None :: (world \<Rightarrow> (error + int) \<times> world) option) ?w1") auto
  then have d: "data (tensors w2 0) = [5 - 1 / (1 + eps)]" using n1 by simp
  have f1: "fst (step (Some loss_closure) plain_world) = Inr (Some 42)"
    by (subst s) (simp add: e)
  have f2: "snd (step (Some loss_closure) plain_world) = w2"
    by (subst s) (simp add: e)
  show ?thesis using n0 d f1 f2 by simp
qed

section \<open>The dense update from a new state\<close>

lemma first_dense_step:
  assumes "grad p = Some (Dense gd)" and "length gd = length (data p)"
    and "lr_decay g = 0" and "weight_decay g = 0" and "l1_C g = 0"
  shows "step_param nb nns g p (Some (fresh_state (length (data p)))) =
           (Inr (),
            p\<lparr>data := map2 (\<lambda>d x. d - lr g * x / (\<bar>x\<bar> + eps)) (data p) gd\<rparr>,
            Some ((fresh_state (length (data p)))\<lparr>step_st := 1, sum_st := map (\<lambda>x. x * x) gd\<rparr>))"
proof -
  have c: "l1_cond nb nns (l1_C g) (psize p) = Inr False"
    using assms(5) by (simp add: l1_cond_def)
  have s: "map2 (\<lambda>x y. x + y * y) (replicate (length (data p)) 0) gd = map (\<lambda>x. x * x) gd"
    using assms(2) by (intro nth_equalityI) simp_all
  have d: "map2 (\<lambda>x y. x - lr g * y) (data p)
             (map2 (/) gd
               (map ((\<lambda>s. sqrt s + eps) \<circ> (\<lambda>(x, y). x + y * y))
                 (zip (replicate (length (data p)) 0) gd))) =
           map2 (\<lambda>x y. x - lr g * y / (\<bar>y\<bar> + eps)) (data p) gd"
    using assms(2) by (intro nth_equalityI) simp_all
  show ?thesis
    using assms(1,3,4) c
    by (simp add: step_param_def Let_def dense_update_def fresh_state_def) (simp add: s d)
qed

lemma scenario:
  "fst (run_steps (replicate 3 (\<lambda>q. Some (Dense [1, 1, 1]))) (scenario_world a b c)) = Inr () \<and>
   state (snd (run_steps (replicate 3 (\<lambda>q. Some (Dense [1, 1, 1]))) (scenario_world a b c))) 0 =
     Some \<lparr>step_st = 3, sum_st = [3, 3, 3], avg_st = [0, 0, 0], zeros_st = [0, 0, 0]\<rparr> \<and>
   data (tensors (snd (run_steps (replicate 3 (\<lambda>q. Some (Dense [1, 1, 1]))) (scenario_world a b c))) 0) =
     map (\<lambda>x. x - (1 / 10) * 1 / (sqrt 1 + eps) - (1 / 10) * 1 / (sqrt 2 + eps)
                 - (1 / 10) * 1 / (sqrt 3 + eps)) [a, b, c]"
  by (simp add: scenario_world_def adagrad_world_def default_arg_def reset_def reset_param_def
      fresh_state_def set_grads_def step_def step_at_def step_param_def l1_cond_def
      dense_update_def Let_def numeral_3_eq_3 mult.commute)


text \<open>
  C4. On the dense update with \<open>lr_decay\<close>, \<open>weight_decay\<close> and \<open>l1_C\<close> zero, from
  the state \<open>reset\<close> creates: the first call of the loop body on a dense gradient
  \<open>g\<close> returns, subtracts \<open>lr * g / (|g| + 1e-10)\<close> from every entry of the parameter
  and leaves \<open>step = 1\<close> and \<open>sum = g * g\<close>. In the scenario (one parameter of shape
  \<open>[3]\<close>, \<open>lr = 0.1\<close>, gradient \<open>[1, 1, 1]\<close> before each of three calls of
  \<open>step\<close> on the optimizer the constructor returns) all three calls return, \<open>sum\<close> is \<open>[3, 3, 3]\<close>, \<open>step\<close> is 3, and
  every entry has lost \<open>0.1 / (sqrt k + 1e-10)\<close> for \<open>k = 1, 2, 3\<close>.
\<close>

theorem dense_first_step_and_scenario:
  assumes "grad p = Some (Dense gd)" and "length gd = length (data p)"
    and "lr_decay g = 0" and "weight_decay g = 0" and "l1_C g = 0"
  shows "step_param nb nns g p (Some (fresh_state (length (data p)))) =
           (Inr (),
            p\<lparr>data := map2 (\<lambda>d x. d - lr g * x / (\<bar>x\<bar> + eps)) (data p) gd\<rparr>,
            Some ((fresh_state (length (data p)))\<lparr>step_st := 1, sum_st := map (\<lambda>x. x * x) gd\<rparr>)) \<and>
         fst (run_steps (replicate 3 (\<lambda>q. Some (Dense [1, 1, 1]))) (scenario_world a b c)) = Inr () \<and>
         state (snd (run_steps (replicate 3 (\<lambda>q. Some (Dense [1, 1, 1]))) (scenario_world a b c))) 0 =
           Some \<lparr>step_st = 3, sum_st = [3, 3, 3], avg_st = [0, 0, 0], zeros_st = [0, 0, 0]\<rparr> \<and>
         data (tensors (snd (run_steps (replicate 3 (\<lambda>q. Some (Dense [1, 1, 1])))
                               (scenario_world a b c))) 0) =
           map (\<lambda>x. x - (1 / 10) * 1 / (sqrt 1 + eps) - (1 / 10) * 1 / (sqrt 2 + eps)
                       - (1 / 10) * 1 / (sqrt 3 + eps)) [a, b, c] \<and>
         adagrad_init [0] (Some (1 / 10)) None None None None None
             (\<lambda>q. \<lparr>psize = [3], data = [a, b, c], grad = None\<rparr>) =
           Inr (scenario_world a b c)"
proof -
  have "adagrad_init [0] (Some (1 / 10)) None None None None None
             (\<lambda>q. \<lparr>psize = [3], data = [a, b, c], grad = None\<rparr>) =
           Inr (scenario_world a b c)"
    by (simp add: adagrad_init_def scenario_world_def)
  then show ?thesis
    using first_dense_step [OF assms, of nb nns] scenario [of a b c] by blast
qed

theorem dense_first_step_and_scenario_witness:
  "step_param True True \<lparr>params = [0], lr = 1, lr_decay = 0, weight_decay = 0, l1_C = 0\<rparr>
     \<lparr>psize = [2], data = [5, 7], grad = Some (Dense [1, - 1])\<rparr> (Some (fresh_state 2)) =
     (Inr (),
      \<lparr>psize = [2], data = [5 - 1 / (1 + eps), 7 + 1 / (1 + eps)],
        grad = Some (Dense [1, - 1])\<rparr>,
      Some \<lparr>step_st = 1, sum_st = [1, 1], avg_st = [0, 0], zeros_st = [0, 0]\<rparr>)"
proof -
  let ?g = "\<lparr>params = [0], lr = 1, lr_decay = 0, weight_decay = 0, l1_C = 0\<rparr>"
  let ?p = "\<lparr>psize = [2], data = [5, 7], grad = Some (Dense [1, - 1])\<rparr>"
  have h1: "grad ?p = Some (Dense [1, - 1])" by simp
  have h2: "length [1, - 1 :: real] = length (data ?p)" by simp
  have h3: "lr_decay ?g = 0" and h4: "weight_decay ?g = 0" and h5: "l1_C ?g = 0" by simp_all
  have "step_param True True ?g ?p (Some (fresh_state (length (data ?p)))) =
           (Inr (),
            ?p\<lparr>data := map2 (\<lambda>d x. d - lr ?g * x / (\<bar>x\<bar> + eps)) (data ?p) [1, - 1]\<rparr>,
            Some ((fresh_state (length (data ?p)))
                    \<lparr>step_st := 1, sum_st := map (\<lambda>x. x * x) [1, - 1]\<rparr>))"
    using dense_first_step_and_scenario [OF h1 h2 h3 h4 h5, of True True 0 0 0] by blast
  then show ?thesis by (simp add: fresh_state_def numeral_2_eq_2)
qed

section \<open>The data set \<open>train\<close> receives\<close>

lemma train_from_config_consumes_all:
  assumes "config ''data'' = Some nm" and "data_sets (py_str nm) = Some ds"
    and "fst (train_from_config py_int py_float py_str shuffle train config evaluations data_sets) = Inr r"
  shows "\<exists>args. r = train args \<and>
           ta_data args = (if config ''data_size'' \<noteq> None then shuffle ds else ds)"
  using assms
  by (auto simp: train_from_config_def bind_err_def lookup_def convert_def Let_def
      split: sum.splits option.splits if_splits prod.splits)

text \<open>
  C8. With \<open>data_size = 50\<close> and a data set of 200 examples, \<open>train\<close> receives the
  shuffled data set with all its 200 examples: line 20 selects the first 50 and drops
  the selection. (Here \<open>train\<close> returns the number of examples it was given, and
  \<open>shuffle\<close> reverses the data set.)
\<close>

theorem train_from_config_subset_discarded:
  "train_from_config num_of real_of str_of rev (\<lambda>args. length (ta_data args))
     example_config [()] example_data_sets = (Inr 200, Some (rev [0..<200])) \<and>
   length (get_subset 0 50 (rev [0..<200 :: nat])) = 50"
  by (simp add: train_from_config_def bind_err_def lookup_def convert_def Let_def
      example_config_def example_data_sets_def num_of_def real_of_def str_of_def get_subset_def)

end
